theory Spec2Isabelle
  imports Complex_Main "HOL-Library.Sublist"
begin

section \<open>Shared vocabulary\<close>

text \<open>
  Python floats are idealised as \<^typ>\<open>real\<close>: rounding error, infinities and NaN have no
  counterpart here. Python exceptions are values of \<open>exn\<close>; a call that may raise returns
  \<open>exn + 'a\<close> with \<open>Inl\<close> for the raise.
\<close>

datatype exn = ZeroDivisionError | RuntimeError string | ValueError string | OtherError string

text \<open>\<open>mt5_trading.domain.signal.Signal\<close>, the three-valued enumeration every strategy returns.\<close>

datatype Signal = BUY | SELL | NONE

text \<open>Python's \<open>xs[:n]\<close>: a negative bound counts from the end of the list.\<close>

definition slice_to :: "'a list \<Rightarrow> int \<Rightarrow> 'a list" where
  "slice_to xs n = (if 0 \<le> n then take (nat n) xs else take (length xs - nat (- n)) xs)"

section \<open>\<open>combined_strategy.py\<close>\<close>

text \<open>
  A \<open>TradingStrategy\<close> is an object whose \<open>signal()\<close> reads the trading data and returns
  \<open>(symbol, signal)\<close> or raises. \<open>TradingData\<close> is kept abstract (type \<open>'d\<close>) apart from its
  \<open>get_symbol()\<close>, which is passed along with it.
\<close>

type_synonym 'd TradingStrategy = "'d \<Rightarrow> exn + (string \<times> Signal)"

record 'd CombinedStrategy =
  cs_data :: 'd
  cs_get_symbol :: "'d \<Rightarrow> string"
  cs_require_all :: bool
  cs_strategies :: "(string \<times> 'd TradingStrategy) list"

text \<open>
  \<open>CombinedStrategy.__init__\<close>: the dictionary \<open>self.strategies\<close> is filled in the fixed order
  crossover, smc, trend_breakout with the constituents whose names occur in \<open>strategies\<close>
  (all three when the argument is \<open>None\<close>). The three constituent classes are parameters.
\<close>

definition CombinedStrategy_init ::
  "'d TradingStrategy \<Rightarrow> 'd TradingStrategy \<Rightarrow> 'd TradingStrategy \<Rightarrow>
   'd \<Rightarrow> ('d \<Rightarrow> string) \<Rightarrow> string list option \<Rightarrow> bool \<Rightarrow> 'd CombinedStrategy" where
  "CombinedStrategy_init CrossOverStrategy SMCStrategy TrendBreakoutStrategy
       trading_data get_symbol strategies require_all =
     (let names = (case strategies of None \<Rightarrow> [''crossover'', ''smc'', ''trend_breakout'']
                                    | Some ns \<Rightarrow> ns)
      in \<lparr> cs_data = trading_data,
           cs_get_symbol = get_symbol,
           cs_require_all = require_all,
           cs_strategies =
             (if ''crossover'' \<in> set names then [(''crossover'', CrossOverStrategy)] else []) @
             (if ''smc'' \<in> set names then [(''smc'', SMCStrategy)] else []) @
             (if ''trend_breakout'' \<in> set names
              then [(''trend_breakout'', TrendBreakoutStrategy)] else []) \<rparr>)"

text \<open>
  The loop over \<open>self.strategies.items()\<close>: each constituent is called inside its own
  \<open>try\<close>; a result is appended to \<open>signals\<close>, a raise is skipped.
\<close>

fun collect_signals :: "(string \<times> 'd TradingStrategy) list \<Rightarrow> 'd \<Rightarrow> Signal list \<Rightarrow> Signal list" where
  "collect_signals [] d signals = signals"
| "collect_signals ((strategy_name, strategy) # rest) d signals =
     (case strategy d of
        Inr (_, signal) \<Rightarrow> collect_signals rest d (signals @ [signal])
      | Inl e \<Rightarrow> collect_signals rest d signals)"

text \<open>\<open>sum(1 for s in signals if s == v)\<close>.\<close>

definition count_signal :: "Signal \<Rightarrow> Signal list \<Rightarrow> nat" where
  "count_signal v signals = length (filter (\<lambda>s. s = v) signals)"

text \<open>The majority threshold of the source, \<open>(total_strategies + 1) // 2\<close>.\<close>

definition majority_threshold :: "nat \<Rightarrow> nat" where
  "majority_threshold total_strategies = (total_strategies + 1) div 2"

definition CombinedStrategy_signal :: "'d CombinedStrategy \<Rightarrow> string \<times> Signal" where
  "CombinedStrategy_signal self =
     (if length (cs_strategies self) = 0 then (cs_get_symbol self (cs_data self), NONE)
      else
        let signals = collect_signals (cs_strategies self) (cs_data self) [];
            symbol = cs_get_symbol self (cs_data self)
        in if length signals = 0 then (symbol, NONE)
           else
             let buy_count = count_signal BUY signals;
                 sell_count = count_signal SELL signals
             in if cs_require_all self then
                  (if buy_count = length signals then (symbol, BUY)
                   else if sell_count = length signals then (symbol, SELL)
                   else (symbol, NONE))
                else
                  (let total_strategies = length signals
                   in if buy_count \<ge> majority_threshold total_strategies then (symbol, BUY)
                      else if sell_count \<ge> majority_threshold total_strategies then (symbol, SELL)
                      else (symbol, NONE)))"

text \<open>
  The threshold of the specification, \<open>ceil((n + 1) / 2)\<close>, written from the specification's
  words for comparison with \<^const>\<open>majority_threshold\<close>.
\<close>

definition spec_majority_threshold :: "nat \<Rightarrow> nat" where
  "spec_majority_threshold n = nat \<lceil>(real n + 1) / 2\<rceil>"

section \<open>The MetaTrader 5 terminal\<close>

text \<open>
  The \<open>MetaTrader5\<close> package is an external collaborator. Its queries are modelled by what
  they return for the duration of one call of the code under study: \<open>None\<close> and \<open>False\<close>
  are the package's documented failure values.
\<close>

record PriceBar =
  bar_time :: int
  bar_open :: real
  bar_high :: real
  bar_low :: real
  bar_close :: real
  bar_tick_volume :: real

record Tick =
  bid :: real
  ask :: real

record SymbolInfo =
  trade_tick_size :: real
  trade_tick_value :: real
  trade_contract_size :: real
  digits :: int
  volume_min :: real
  volume_max :: real
  volume_step :: real

record AccountInfo =
  balance :: real
  equity :: real

record Position =
  pos_symbol :: string
  pos_volume :: real
  pos_profit :: real

record MT5 =
  initialize :: bool
  login :: bool
  symbol_select :: "string \<Rightarrow> bool"
  copy_rates_from_pos :: "string \<Rightarrow> int \<Rightarrow> PriceBar list option"
  symbol_info_tick :: "string \<Rightarrow> Tick option"
  symbol_info :: "string \<Rightarrow> SymbolInfo option"
  account_info :: "AccountInfo option"
  positions_get :: "Position list option"

text \<open>\<open>mt5.TIMEFRAME_H1\<close>, the default timeframe argument.\<close>

definition TIMEFRAME_H1 :: int where
  "TIMEFRAME_H1 = 16385"

section \<open>\<open>volatility_analyzer.py\<close>\<close>

text \<open>
  The two periods are counts of bars (defaults 14 and 20). For \<open>atr_period = 0\<close> the source
  averages empty windows, which numpy answers with NaN; the claims below do not depend on the
  value of the average.
\<close>

record VolatilityAnalyzer =
  atr_period :: nat
  lookback_period :: nat

text \<open>\<open>VolatilityAnalyzer.__init__\<close> raises when the terminal cannot be initialised or logged into.\<close>

definition VolatilityAnalyzer_init :: "MT5 \<Rightarrow> nat \<Rightarrow> nat \<Rightarrow> exn + VolatilityAnalyzer" where
  "VolatilityAnalyzer_init mt5 atr_period' lookback_period' =
     (if \<not> initialize mt5 then Inl (RuntimeError ''Failed to initialize MT5'')
      else if \<not> login mt5 then Inl (RuntimeError ''Failed to login to MT5'')
      else Inr \<lparr> atr_period = atr_period', lookback_period = lookback_period' \<rparr>)"

text \<open>\<open>np.mean\<close>; on an empty list numpy yields NaN, the model \<open>0\<close>.\<close>

definition mean :: "real list \<Rightarrow> real" where
  "mean xs = sum_list xs / real (length xs)"

text \<open>pandas' \<open>Series.std()\<close>, the sample standard deviation (divisor \<open>n - 1\<close>).\<close>

definition std :: "real list \<Rightarrow> real" where
  "std xs = sqrt (sum_list (map (\<lambda>x. (x - mean xs)\<^sup>2) xs) / (real (length xs) - 1))"

text \<open>\<open>Series.max()\<close> and \<open>Series.min()\<close>; only called on non-empty series.\<close>

fun maximum :: "real list \<Rightarrow> real" where
  "maximum [] = 0"
| "maximum (x # xs) = fold max xs x"

fun minimum :: "real list \<Rightarrow> real" where
  "minimum [] = 0"
| "minimum (x # xs) = fold min xs x"

text \<open>The true-range loop, \<open>for i in range(1, len(df))\<close>.\<close>

fun true_ranges :: "PriceBar list \<Rightarrow> real list" where
  "true_ranges (prev # cur # rest) =
     max (max (bar_high cur - bar_low cur) \<bar>bar_high cur - bar_close prev\<bar>)
         \<bar>bar_low cur - bar_close prev\<bar>
     # true_ranges (cur # rest)"
| "true_ranges _ = []"

text \<open>
  \<open>calculate_atr\<close>. The window \<open>tr_list[i - atr_period + 1 : i + 1]\<close> is
  \<open>take atr_period (drop (i + 1 - atr_period) tr_list)\<close>; \<open>atr_values[-lookback_period:]\<close> is the
  whole list when \<open>lookback_period = 0\<close> (Python's \<open>-0\<close>), else the last \<open>lookback_period\<close>
  values.
\<close>

definition calculate_atr :: "VolatilityAnalyzer \<Rightarrow> PriceBar list \<Rightarrow> real" where
  "calculate_atr self df =
     (if length df < atr_period self + 1 then 0
      else
        let tr_list = true_ranges df
        in if length tr_list < atr_period self then 0
           else
             let atr_values =
                   map (\<lambda>i. mean (take (atr_period self) (drop (i + 1 - atr_period self) tr_list)))
                       [atr_period self - 1 ..< length tr_list]
             in if length atr_values = 0 then 0
                else if length atr_values \<ge> lookback_period self
                then mean (if lookback_period self = 0 then atr_values
                           else drop (length atr_values - lookback_period self) atr_values)
                else mean atr_values)"

text \<open>\<open>df['close'].pct_change().dropna()\<close>: the simple returns of consecutive closes.\<close>

fun pct_change :: "real list \<Rightarrow> real list" where
  "pct_change (a # b # rest) = (b - a) / a # pct_change (b # rest)"
| "pct_change _ = []"

record VolatilityMetrics =
  vm_symbol :: string
  vm_atr :: real
  vm_atr_percentage :: real
  vm_volatility :: real
  vm_price_range :: real
  vm_current_price :: real
  vm_score :: real

text \<open>
  \<open>calculate_volatility_metrics\<close>: \<open>None\<close> when the symbol cannot be selected, when there
  are no rates, or when the series is shorter than \<open>atr_period + lookback_period\<close>.
\<close>

definition calculate_volatility_metrics ::
  "VolatilityAnalyzer \<Rightarrow> MT5 \<Rightarrow> string \<Rightarrow> int \<Rightarrow> VolatilityMetrics option" where
  "calculate_volatility_metrics self mt5 symbol timeframe =
     (if \<not> symbol_select mt5 symbol then None
      else case copy_rates_from_pos mt5 symbol timeframe of
        None \<Rightarrow> None
      | Some rates \<Rightarrow>
          if length rates = 0 then None
          else if length rates < atr_period self + lookback_period self then None
          else
            let df = rates;
                atr = calculate_atr self df;
                returns = pct_change (map bar_close df);
                volatility = (if length returns > 0 then std returns * sqrt 252 else 0);
                price_range = (maximum (map bar_high df) - minimum (map bar_low df))
                              / mean (map bar_close df) * 100;
                current_price = (case symbol_info_tick mt5 symbol of
                                   Some tick \<Rightarrow> (bid tick + ask tick) / 2
                                 | None \<Rightarrow> last (map bar_close df));
                atr_percentage = (if current_price > 0 then atr / current_price * 100 else 0)
            in Some \<lparr> vm_symbol = symbol,
                      vm_atr = atr,
                      vm_atr_percentage = atr_percentage,
                      vm_volatility = volatility,
                      vm_price_range = price_range,
                      vm_current_price = current_price,
                      vm_score = atr_percentage * 0.6 + volatility * 0.4 \<rparr>)"

text \<open>The loop of \<open>rank_symbols_by_volatility\<close>: metrics are appended, \<open>None\<close> is skipped.\<close>

fun collect_metrics ::
  "VolatilityAnalyzer \<Rightarrow> MT5 \<Rightarrow> int \<Rightarrow> string list \<Rightarrow> VolatilityMetrics list \<Rightarrow> VolatilityMetrics list" where
  "collect_metrics self mt5 timeframe [] results = results"
| "collect_metrics self mt5 timeframe (symbol # rest) results =
     (case calculate_volatility_metrics self mt5 symbol timeframe of
        Some metrics \<Rightarrow> collect_metrics self mt5 timeframe rest (results @ [metrics])
      | None \<Rightarrow> collect_metrics self mt5 timeframe rest results)"

text \<open>
  \<open>list.sort(key=..., reverse=True)\<close>: CPython reverses the list, sorts it stably in
  ascending order and reverses it again, so elements with equal keys keep their order.
\<close>

definition sort_reverse :: "('a \<Rightarrow> real) \<Rightarrow> 'a list \<Rightarrow> 'a list" where
  "sort_reverse key xs = rev (sort_key key (rev xs))"

definition rank_symbols_by_volatility ::
  "VolatilityAnalyzer \<Rightarrow> MT5 \<Rightarrow> string list \<Rightarrow> int \<Rightarrow> VolatilityMetrics list" where
  "rank_symbols_by_volatility self mt5 symbols timeframe =
     sort_reverse vm_score (collect_metrics self mt5 timeframe symbols [])"

definition select_top_volatile_symbols ::
  "VolatilityAnalyzer \<Rightarrow> MT5 \<Rightarrow> string list \<Rightarrow> int \<Rightarrow> real \<Rightarrow> int \<Rightarrow> string list" where
  "select_top_volatile_symbols self mt5 symbols max_symbols min_volatility_threshold timeframe =
     (let ranked = rank_symbols_by_volatility self mt5 symbols timeframe;
          filtered = map vm_symbol (filter (\<lambda>r. vm_score r \<ge> min_volatility_threshold) ranked);
          selected = slice_to filtered max_symbols
      in selected)"

section \<open>\<open>main_live.py\<close>: selecting the symbols to trade\<close>

text \<open>
  The part of the YAML configuration that \<open>select_volatile_symbols\<close> reads. \<open>load_config\<close>
  either raises or returns a dictionary; a missing file gives the empty dictionary.
\<close>

record VolatilityConfig =
  min_volatility_threshold :: "real option"

record Config =
  volatility_config :: "VolatilityConfig option"

text \<open>
  \<open>config.get('volatility_config', {}).get('min_volatility_threshold', 0.5)\<close>.
\<close>

definition min_threshold_of :: "Config \<Rightarrow> real" where
  "min_threshold_of config =
     (case volatility_config config of
        None \<Rightarrow> 0.5
      | Some vc \<Rightarrow> (case min_volatility_threshold vc of None \<Rightarrow> 0.5 | Some t \<Rightarrow> t))"

text \<open>
  \<open>select_volatile_symbols\<close>: the analyzer is built with the default periods 14 and 20; an
  exception anywhere in the \<open>try\<close> block gives the first \<open>max_symbols\<close> candidates.
\<close>

definition select_volatile_symbols ::
  "MT5 \<Rightarrow> exn + Config \<Rightarrow> string list \<Rightarrow> int \<Rightarrow> string list" where
  "select_volatile_symbols mt5 load_config candidates max_symbols =
     (case VolatilityAnalyzer_init mt5 14 20 of
        Inl e \<Rightarrow> slice_to candidates max_symbols
      | Inr analyzer \<Rightarrow>
          (case load_config of
             Inl e \<Rightarrow> slice_to candidates max_symbols
           | Inr config \<Rightarrow>
               select_top_volatile_symbols analyzer mt5 candidates max_symbols
                 (min_threshold_of config) TIMEFRAME_H1))"

section \<open>\<open>risk_manager.py\<close>\<close>

record RiskManager =
  risk_per_symbol :: real
  max_total_risk :: real

text \<open>\<open>get_account_balance\<close>: \<open>0.0\<close> when the account information is unavailable.\<close>

definition get_account_balance :: "MT5 \<Rightarrow> real" where
  "get_account_balance mt5 =
     (case account_info mt5 of None \<Rightarrow> 0 | Some info \<Rightarrow> balance info)"

text \<open>Python's \<open>/\<close> on floats raises \<open>ZeroDivisionError\<close> when the divisor is zero.\<close>

definition truediv :: "real \<Rightarrow> real \<Rightarrow> exn + real" where
  "truediv a b = (if b = 0 then Inl ZeroDivisionError else Inr (a / b))"

text \<open>Python's one-argument \<open>round\<close>: to the nearest integer, a tie to the even one.\<close>

definition py_round :: "real \<Rightarrow> int" where
  "py_round x =
     (let f = \<lfloor>x\<rfloor>; d = x - of_int f
      in if d < 1 / 2 then f
         else if d > 1 / 2 then f + 1
         else if even f then f else f + 1)"

text \<open>The pip-to-price conversion shared by sizing and risk checking.\<close>

definition price_diff_of :: "SymbolInfo \<Rightarrow> real \<Rightarrow> real" where
  "price_diff_of info stop_loss_pips =
     (if digits info = 5 \<or> digits info = 3
      then stop_loss_pips * trade_tick_size info * 10
      else stop_loss_pips * trade_tick_size info)"

text \<open>
  The body of the \<open>try\<close> block of \<open>calculate_position_size\<close>. \<open>risk_amount\<close> is the optional
  argument (\<open>None\<close>: derive it from the balance).
\<close>

definition calculate_position_size_try ::
  "RiskManager \<Rightarrow> MT5 \<Rightarrow> string \<Rightarrow> real \<Rightarrow> real option \<Rightarrow> real \<Rightarrow> exn + real" where
  "calculate_position_size_try self mt5 symbol stop_loss_pips risk_amount volatility_multiplier =
     (if \<not> symbol_select mt5 symbol then Inr 0
      else case symbol_info mt5 symbol of
        None \<Rightarrow> Inr 0
      | Some info \<Rightarrow>
         (case symbol_info_tick mt5 symbol of
            None \<Rightarrow> Inr 0
          | Some tick \<Rightarrow>
             (let risk_amount' = (case risk_amount of
                                    None \<Rightarrow> get_account_balance mt5 * risk_per_symbol self
                                  | Some r \<Rightarrow> r)
              in case truediv risk_amount' volatility_multiplier of
                Inl e \<Rightarrow> Inl e
              | Inr adjusted_risk \<Rightarrow>
                 (let tick_size = trade_tick_size info;
                      tick_value = trade_tick_value info;
                      price_diff = price_diff_of info stop_loss_pips
                  in if price_diff = 0 then Inr 0
                     else case truediv (price_diff * tick_value) tick_size of
                       Inl e \<Rightarrow> Inl e
                     | Inr risk_per_lot \<Rightarrow>
                        (case truediv adjusted_risk risk_per_lot of
                           Inl e \<Rightarrow> Inl e
                         | Inr position_size \<Rightarrow>
                            (let min_lot = volume_min info;
                                 max_lot = volume_max info;
                                 lot_step = volume_step info
                             in case truediv position_size lot_step of
                               Inl e \<Rightarrow> Inl e
                             | Inr steps \<Rightarrow>
                                (let position_size' = of_int (py_round steps) * lot_step
                                 in Inr (max min_lot (min position_size' max_lot)))))))))"

text \<open>\<open>calculate_position_size\<close>: any exception of the body is caught and gives \<open>0.0\<close>.\<close>

definition calculate_position_size ::
  "RiskManager \<Rightarrow> MT5 \<Rightarrow> string \<Rightarrow> real \<Rightarrow> real option \<Rightarrow> real \<Rightarrow> real" where
  "calculate_position_size self mt5 symbol stop_loss_pips risk_amount volatility_multiplier =
     (case calculate_position_size_try self mt5 symbol stop_loss_pips risk_amount
             volatility_multiplier of
        Inl e \<Rightarrow> 0
      | Inr position_size \<Rightarrow> position_size)"

text \<open>
  \<open>get_total_exposure\<close>: the totals over the open positions, optionally restricted to a
  non-empty list of symbols. The per-symbol breakdown of the source is not read by any caller
  modelled here and is left out.
\<close>

record Exposure =
  total_positions :: nat
  total_volume :: real
  total_profit :: real

definition get_total_exposure :: "MT5 \<Rightarrow> string list option \<Rightarrow> Exposure" where
  "get_total_exposure mt5 symbols =
     (case positions_get mt5 of
        None \<Rightarrow> \<lparr> total_positions = 0, total_volume = 0, total_profit = 0 \<rparr>
      | Some positions \<Rightarrow>
          if length positions = 0
          then \<lparr> total_positions = 0, total_volume = 0, total_profit = 0 \<rparr>
          else
            let df = (case symbols of
                        None \<Rightarrow> positions
                      | Some syms \<Rightarrow> if syms = [] then positions
                                     else filter (\<lambda>p. pos_symbol p \<in> set syms) positions)
            in \<lparr> total_positions = length df,
                 total_volume = sum_list (map pos_volume df),
                 total_profit = sum_list (map pos_profit df) \<rparr>)"

text \<open>
  The verdicts of \<open>check_risk_limits\<close>. The source returns a flag and a formatted message;
  the message is kept in structured form and rendered by \<open>reason_message\<close>, whose first two
  arguments stand for the \<open>:.2f\<close> number format and for \<open>str\<close> of an exception.
\<close>

datatype RiskReason =
    Account_balance_is_zero
  | Symbol_not_found string
  | Failed_to_get_tick string
  | Position_risk_exceeds real real
  | Total_risk_exceeds real real
  | Risk_check_passed real real
  | Error_checking exn

fun reason_message :: "(real \<Rightarrow> string) \<Rightarrow> (exn \<Rightarrow> string) \<Rightarrow> RiskReason \<Rightarrow> string" where
  "reason_message fmt str_of Account_balance_is_zero = ''Account balance is zero''"
| "reason_message fmt str_of (Symbol_not_found symbol) = ''Symbol '' @ symbol @ '' not found''"
| "reason_message fmt str_of (Failed_to_get_tick symbol) = ''Failed to get tick for '' @ symbol"
| "reason_message fmt str_of (Position_risk_exceeds r l) =
     ''Position risk ('' @ fmt r @ ''%) exceeds per-symbol limit ('' @ fmt l @ ''%)''"
| "reason_message fmt str_of (Total_risk_exceeds r l) =
     ''Total risk ('' @ fmt r @ ''%) would exceed maximum limit ('' @ fmt l @ ''%)''"
| "reason_message fmt str_of (Risk_check_passed p t) =
     ''Risk check passed (position risk: '' @ fmt p @ ''%, total risk: '' @ fmt t @ ''%)''"
| "reason_message fmt str_of (Error_checking e) = ''Error checking risk limits: '' @ str_of e"

text \<open>The two percentages \<open>check_risk_limits\<close> computes; both are \<open>0\<close> unless the balance is positive.\<close>

definition position_risk_percent :: "real \<Rightarrow> real \<Rightarrow> real" where
  "position_risk_percent balance' position_risk =
     (if balance' > 0 then (position_risk / balance') * 100 else 0)"

definition current_total_risk :: "real \<Rightarrow> Exposure \<Rightarrow> real" where
  "current_total_risk balance' exposure =
     (if balance' > 0 then \<bar>total_profit exposure\<bar> / balance' * 100 else 0)"

definition check_risk_limits_try ::
  "RiskManager \<Rightarrow> MT5 \<Rightarrow> string \<Rightarrow> real \<Rightarrow> real \<Rightarrow> exn + (bool \<times> RiskReason)" where
  "check_risk_limits_try self mt5 symbol proposed_position_size stop_loss_pips =
     (let balance' = get_account_balance mt5
      in if balance' = 0 then Inr (False, Account_balance_is_zero)
         else case symbol_info mt5 symbol of
           None \<Rightarrow> Inr (False, Symbol_not_found symbol)
         | Some info \<Rightarrow>
            (case symbol_info_tick mt5 symbol of
               None \<Rightarrow> Inr (False, Failed_to_get_tick symbol)
             | Some tick \<Rightarrow>
                (let tick_size = trade_tick_size info;
                     tick_value = trade_tick_value info;
                     price_diff = price_diff_of info stop_loss_pips
                 in case truediv (price_diff * tick_value * proposed_position_size) tick_size of
                   Inl e \<Rightarrow> Inl e
                 | Inr q \<Rightarrow>
                    (let position_risk = \<bar>q\<bar>;
                         risk_percent = position_risk_percent balance' position_risk
                     in if risk_percent > risk_per_symbol self * 100
                        then Inr (False, Position_risk_exceeds risk_percent
                                           (risk_per_symbol self * 100))
                        else
                          let exposure = get_total_exposure mt5 None;
                              new_total_risk = current_total_risk balance' exposure + risk_percent
                          in if new_total_risk > max_total_risk self * 100
                             then Inr (False, Total_risk_exceeds new_total_risk
                                                (max_total_risk self * 100))
                             else Inr (True, Risk_check_passed risk_percent new_total_risk)))))"

definition check_risk_limits ::
  "RiskManager \<Rightarrow> MT5 \<Rightarrow> string \<Rightarrow> real \<Rightarrow> real \<Rightarrow> bool \<times> RiskReason" where
  "check_risk_limits self mt5 symbol proposed_position_size stop_loss_pips =
     (case check_risk_limits_try self mt5 symbol proposed_position_size stop_loss_pips of
        Inl e \<Rightarrow> (False, Error_checking e)
      | Inr verdict \<Rightarrow> verdict)"

definition get_volatility_multiplier :: "real \<Rightarrow> real \<Rightarrow> real" where
  "get_volatility_multiplier atr_percentage base_atr =
     (let base_atr' = (if base_atr = 0 then 1 else base_atr);
          multiplier = base_atr' / max atr_percentage 0.1
      in max 0.5 (min 2 multiplier))"

section \<open>\<open>multi_symbol_robot.py\<close>\<close>

text \<open>
  The \<open>Trader\<close> adapter is an external collaborator working on the broker's state, of
  abstract type \<open>'b\<close>. A query returns a count or raises; a command returns its result or
  raises, and leaves a new broker state either way.
\<close>

datatype order_type = ORDER_TYPE_BUY | ORDER_TYPE_SELL

record TradeResult =
  retcode :: int
  order :: int
  volume :: real
  price :: real

record 'b Trader =
  get_opened_positions :: "'b \<Rightarrow> string \<Rightarrow> order_type \<Rightarrow> exn + nat"
  open_position ::
    "'b \<Rightarrow> string \<Rightarrow> real \<Rightarrow> order_type \<Rightarrow> string \<Rightarrow> int \<Rightarrow> (exn + TradeResult option) \<times> 'b"
  close_positions :: "'b \<Rightarrow> string \<Rightarrow> string \<Rightarrow> order_type \<Rightarrow> (exn + unit) \<times> 'b"

text \<open>The calls \<open>trade_symbol\<close> makes on the trader, recorded in the order they are made.\<close>

datatype trader_call =
    Get_opened_positions string order_type
  | Open_position string real order_type string int
  | Close_positions string string order_type

text \<open>
  The robot. \<open>strategies\<close> gives, for a managed symbol, what its strategy's \<open>signal()\<close>
  returns in this cycle (or the exception it raises); \<open>volatility_metrics\<close> is the symbol
  manager's dictionary of the latest metrics.
\<close>

record 'b MultiSymbolRobot =
  trader :: "'b Trader"
  strategies :: "string \<Rightarrow> (exn + (string \<times> Signal)) option"
  volatility_metrics :: "string \<Rightarrow> VolatilityMetrics option"
  risk_manager :: RiskManager
  default_lot_size :: real
  stop_loss_pips :: real

definition magic_number :: int where
  "magic_number = 20240101"

definition name :: string where
  "name = ''Multi-Symbol Robot''"

text \<open>
  \<open>MultiSymbolRobot.calculate_position_size\<close>: the volatility multiplier is derived from the
  symbol's metrics when it was left at \<open>1.0\<close>; a computed size of \<open>0.0\<close> is replaced by the
  default lot size.
\<close>

definition robot_calculate_position_size :: "'b MultiSymbolRobot \<Rightarrow> MT5 \<Rightarrow> string \<Rightarrow> real \<Rightarrow> real" where
  "robot_calculate_position_size self mt5 symbol volatility_multiplier =
     (let volatility_multiplier' =
            (case volatility_metrics self symbol of
               Some metrics \<Rightarrow>
                 if volatility_multiplier = 1
                 then get_volatility_multiplier (vm_atr_percentage metrics) 1
                 else volatility_multiplier
             | None \<Rightarrow> volatility_multiplier);
          position_size = calculate_position_size (risk_manager self) mt5 symbol
                            (stop_loss_pips self) None volatility_multiplier'
      in if position_size = 0 then default_lot_size self else position_size)"

definition check_risk_before_trade ::
  "'b MultiSymbolRobot \<Rightarrow> MT5 \<Rightarrow> string \<Rightarrow> real \<Rightarrow> bool \<times> RiskReason" where
  "check_risk_before_trade self mt5 symbol position_size =
     check_risk_limits (risk_manager self) mt5 symbol position_size (stop_loss_pips self)"

text \<open>
  Control flow inside \<open>trade_symbol\<close>: a block either returns from the function or falls
  through to the statement after it. The state is the broker's state with the calls made so far.
\<close>

datatype 'a flow = Return 'a | Continue 'a

text \<open>
  The block under \<open>if total == 0\<close>: size the trade, check the risk limits, send the order.
  It returns early when the risk check rejects, when \<open>open_position\<close> raises (the exception
  ends \<open>trade_symbol\<close>) and when \<open>open_position\<close> returns \<open>None\<close>.
\<close>

definition open_new_position ::
  "'b MultiSymbolRobot \<Rightarrow> MT5 \<Rightarrow> string \<Rightarrow> order_type \<Rightarrow> string \<Rightarrow>
   'b \<times> trader_call list \<Rightarrow> ('b \<times> trader_call list) flow" where
  "open_new_position self mt5 symbol side comment st =
     (let position_size = robot_calculate_position_size self mt5 symbol 1;
          (is_allowed, reason) = check_risk_before_trade self mt5 symbol position_size
      in if \<not> is_allowed then Return st
         else
           let (result, broker') =
                 open_position (trader self) (fst st) symbol position_size side comment magic_number;
               st' = (broker', snd st @ [Open_position symbol position_size side comment magic_number])
           in case result of
                Inl e \<Rightarrow> Return st'
              | Inr None \<Rightarrow> Return st'
              | Inr (Some r) \<Rightarrow> Continue st')"

text \<open>The block under \<open># Close opposite positions\<close>.\<close>

definition close_opposite ::
  "'b MultiSymbolRobot \<Rightarrow> string \<Rightarrow> order_type \<Rightarrow> 'b \<times> trader_call list \<Rightarrow> 'b \<times> trader_call list" where
  "close_opposite self symbol side st =
     (let st' = (fst st, snd st @ [Get_opened_positions symbol side])
      in case get_opened_positions (trader self) (fst st) symbol side of
           Inl e \<Rightarrow> st'
         | Inr total_opposite \<Rightarrow>
             if total_opposite > 0
             then (snd (close_positions (trader self) (fst st') name symbol side),
                   snd st' @ [Close_positions name symbol side])
             else st')"

text \<open>
  \<open>trade_symbol\<close>, from the broker state at its start to the broker state at its end and the
  calls made on the trader. The outer \<open>try\<close> catches every exception, so a raising call ends
  the function with the state reached so far.
\<close>

definition trade_symbol ::
  "'b MultiSymbolRobot \<Rightarrow> MT5 \<Rightarrow> string \<Rightarrow> 'b \<Rightarrow> 'b \<times> trader_call list" where
  "trade_symbol self mt5 symbol broker =
     (case strategies self symbol of
        None \<Rightarrow> (broker, [])
      | Some (Inl e) \<Rightarrow> (broker, [])
      | Some (Inr (signal_symbol, signal)) \<Rightarrow>
         (case signal of
            BUY \<Rightarrow>
              (let st = (broker, [Get_opened_positions symbol ORDER_TYPE_BUY])
               in case get_opened_positions (trader self) broker symbol ORDER_TYPE_BUY of
                    Inl e \<Rightarrow> st
                  | Inr total_buy \<Rightarrow>
                     (case (if total_buy = 0
                            then open_new_position self mt5 symbol ORDER_TYPE_BUY
                                   (name @ '' buy position'') st
                            else Continue st) of
                        Return st' \<Rightarrow> st'
                      | Continue st' \<Rightarrow> close_opposite self symbol ORDER_TYPE_SELL st'))
          | SELL \<Rightarrow>
              (let st = (broker, [Get_opened_positions symbol ORDER_TYPE_SELL])
               in case get_opened_positions (trader self) broker symbol ORDER_TYPE_SELL of
                    Inl e \<Rightarrow> st
                  | Inr total_sell \<Rightarrow>
                     (case (if total_sell = 0
                            then open_new_position self mt5 symbol ORDER_TYPE_SELL
                                   (name @ '' sell position'') st
                            else Continue st) of
                        Return st' \<Rightarrow> st'
                      | Continue st' \<Rightarrow> close_opposite self symbol ORDER_TYPE_BUY st'))
          | NONE \<Rightarrow> (broker, [])))"

text \<open>Counting the order-changing calls of one side in a list of trader calls.\<close>

fun is_open :: "order_type \<Rightarrow> trader_call \<Rightarrow> bool" where
  "is_open side (Open_position _ _ side' _ _) = (side' = side)"
| "is_open side _ = False"

fun is_close :: "order_type \<Rightarrow> trader_call \<Rightarrow> bool" where
  "is_close side (Close_positions _ _ side') = (side' = side)"
| "is_close side _ = False"

definition open_calls :: "order_type \<Rightarrow> trader_call list \<Rightarrow> nat" where
  "open_calls side calls = length (filter (is_open side) calls)"

definition close_calls :: "order_type \<Rightarrow> trader_call list \<Rightarrow> nat" where
  "close_calls side calls = length (filter (is_close side) calls)"

text \<open>
  The raw size as the specification words it,
  \<open>adjusted_risk / (price_difference \<times> tick_value / tick_size)\<close> with
  \<open>adjusted_risk = risk_amount / volatility_multiplier\<close>, for comparison with the code.
\<close>

definition spec_raw_size :: "RiskManager \<Rightarrow> MT5 \<Rightarrow> SymbolInfo \<Rightarrow> real \<Rightarrow> real option \<Rightarrow> real \<Rightarrow> real" where
  "spec_raw_size self mt5 info stop_loss risk_amount volatility_multiplier =
     ((case risk_amount of
         None \<Rightarrow> get_account_balance mt5 * risk_per_symbol self
       | Some r \<Rightarrow> r) / volatility_multiplier)
     / (price_diff_of info stop_loss * trade_tick_value info / trade_tick_size info)"

section \<open>Concrete inputs\<close>

text \<open>
  A combined strategy built with the default constituents, in majority mode, in a cycle where
  the crossover strategy says BUY, the SMC strategy says SELL and the trend-breakout strategy
  raises.
\<close>

definition split_vote :: "unit CombinedStrategy" where
  "split_vote =
     CombinedStrategy_init (\<lambda>_. Inr (''EURUSD'', BUY)) (\<lambda>_. Inr (''EURUSD'', SELL))
       (\<lambda>_. Inl (ValueError ''not enough bars'')) () (\<lambda>_. ''EURUSD'') None False"

text \<open>The same strategy in a cycle where all three constituents answer.\<close>

definition three_votes :: "Signal \<Rightarrow> Signal \<Rightarrow> Signal \<Rightarrow> unit CombinedStrategy" where
  "three_votes a b c =
     CombinedStrategy_init (\<lambda>_. Inr (''EURUSD'', a)) (\<lambda>_. Inr (''EURUSD'', b))
       (\<lambda>_. Inr (''EURUSD'', c)) () (\<lambda>_. ''EURUSD'') None False"

text \<open>
  A terminal with five instruments: three with three bars each (constant close 100 and a
  high-low spread of 2, 4 and 2), one with a single bar, one that cannot be selected.
\<close>

definition flat_bar :: "real \<Rightarrow> PriceBar" where
  "flat_bar spread =
     \<lparr> bar_time = 0, bar_open = 100, bar_high = 100 + spread / 2, bar_low = 100 - spread / 2,
       bar_close = 100, bar_tick_volume = 1 \<rparr>"

definition demo_mt5 :: MT5 where
  "demo_mt5 =
     \<lparr> initialize = True, login = True,
       symbol_select = (\<lambda>s. s \<noteq> ''XAGUSD''),
       copy_rates_from_pos =
         (\<lambda>s tf. if s = ''EURUSD'' then Some [flat_bar 2, flat_bar 2, flat_bar 2]
                  else if s = ''XAUUSD'' then Some [flat_bar 4, flat_bar 4, flat_bar 4]
                  else if s = ''GBPUSD'' then Some [flat_bar 2, flat_bar 2, flat_bar 2]
                  else if s = ''USDJPY'' then Some [flat_bar 2]
                  else None),
       symbol_info_tick = (\<lambda>s. None),
       symbol_info = (\<lambda>s. None),
       account_info = None,
       positions_get = None \<rparr>"

definition demo_symbols :: "string list" where
  "demo_symbols = [''EURUSD'', ''XAUUSD'', ''GBPUSD'', ''USDJPY'', ''XAGUSD'']"

definition demo_analyzer :: VolatilityAnalyzer where
  "demo_analyzer = \<lparr> atr_period = 1, lookback_period = 1 \<rparr>"

text \<open>
  A terminal with one tradable instrument, parameterised by the account balance and by the
  instrument's metadata; \<open>eurusd\<close> is a five-digit instrument with the given tick value and
  minimum lot.
\<close>

definition eurusd :: "real \<Rightarrow> real \<Rightarrow> SymbolInfo" where
  "eurusd tick_value min_lot =
     \<lparr> trade_tick_size = 1 / 100000, trade_tick_value = tick_value,
       trade_contract_size = 100000, digits = 5,
       volume_min = min_lot, volume_max = 100, volume_step = 1 / 100 \<rparr>"

text \<open>The same instrument with a tick size reported as zero.\<close>

definition zero_tick_size :: SymbolInfo where
  "zero_tick_size = (eurusd 1 (1 / 100))\<lparr> trade_tick_size := 0 \<rparr>"

definition account_mt5 :: "real \<Rightarrow> SymbolInfo \<Rightarrow> MT5" where
  "account_mt5 funds info =
     \<lparr> initialize = True, login = True,
       symbol_select = (\<lambda>s. s = ''EURUSD''),
       copy_rates_from_pos = (\<lambda>s tf. None),
       symbol_info_tick = (\<lambda>s. if s = ''EURUSD'' then Some \<lparr> bid = 11 / 10, ask = 11002 / 10000 \<rparr>
                                else None),
       symbol_info = (\<lambda>s. if s = ''EURUSD'' then Some info else None),
       account_info = Some \<lparr> balance = funds, equity = funds \<rparr>,
       positions_get = Some [] \<rparr>"

definition default_limits :: RiskManager where
  "default_limits = \<lparr> risk_per_symbol = 2 / 100, max_total_risk = 5 / 100 \<rparr>"

text \<open>
  A broker that holds a number of BUY and a number of SELL positions. With automated trading
  enabled an order is filled and adds a position; with it disabled \<open>open_position\<close> returns
  \<open>None\<close>. Closing removes the positions of the given side.
\<close>

definition counting_trader :: "bool \<Rightarrow> (nat \<times> nat) Trader" where
  "counting_trader autotrading =
     \<lparr> get_opened_positions =
         (\<lambda>b s side. Inr (if side = ORDER_TYPE_BUY then fst b else snd b)),
       open_position =
         (\<lambda>b s lots side c m.
            if autotrading
            then (Inr (Some \<lparr> retcode = 10009, order = 1, volume = lots, price = 11 / 10 \<rparr>),
                  if side = ORDER_TYPE_BUY then (fst b + 1, snd b) else (fst b, snd b + 1))
            else (Inr None, b)),
       close_positions =
         (\<lambda>b n s side. (Inr (), if side = ORDER_TYPE_BUY then (0, snd b) else (fst b, 0))) \<rparr>"

definition demo_robot :: "bool \<Rightarrow> Signal \<Rightarrow> (nat \<times> nat) MultiSymbolRobot" where
  "demo_robot autotrading sig =
     \<lparr> trader = counting_trader autotrading,
       strategies = (\<lambda>s. if s = ''EURUSD'' then Some (Inr (''EURUSD'', sig)) else None),
       volatility_metrics = (\<lambda>s. None),
       risk_manager = default_limits,
       default_lot_size = 1 / 10,
       stop_loss_pips = 50 \<rparr>"

section \<open>Combined strategy: the majority threshold\<close>

lemma majority_threshold_odd:
  assumes "odd n"
  shows "majority_threshold n = spec_majority_threshold n"
proof -
  from assms obtain k where n: "n = 2 * k + 1" by (auto elim: oddE)
  have "(real (2 * k + 1) + 1) / 2 = real (k + 1)" by simp
  then have "spec_majority_threshold n = k + 1"
    unfolding spec_majority_threshold_def n by (simp only: ceiling_of_nat nat_int)
  moreover have "majority_threshold n = k + 1"
    by (simp add: majority_threshold_def n)
  ultimately show ?thesis by simp
qed

lemma majority_threshold_even:
  assumes "even n"
  shows "spec_majority_threshold n = majority_threshold n + 1"
proof -
  from assms obtain k where n: "n = 2 * k" by (auto elim: evenE)
  have "\<lceil>(real (2 * k) + 1) / 2\<rceil> = int k + 1"
    by (rule ceiling_unique) (simp_all add: field_simps)
  then have "spec_majority_threshold n = k + 1"
    unfolding spec_majority_threshold_def n by simp
  moreover have "majority_threshold n = k"
    by (simp add: majority_threshold_def n)
  ultimately show ?thesis by simp
qed

text \<open>With three answers the code and the stated threshold agree.\<close>

lemma three_votes_examples:
  "CombinedStrategy_signal (three_votes BUY BUY SELL) = (''EURUSD'', BUY)"
  "CombinedStrategy_signal (three_votes BUY SELL NONE) = (''EURUSD'', NONE)"
  by (simp_all add: three_votes_def CombinedStrategy_init_def CombinedStrategy_signal_def
        count_signal_def majority_threshold_def)

text \<open>
  Claim C1. In majority mode, with \<open>n\<close> the number of constituents that did not raise, the
  result is BUY iff at least \<open>ceil((n + 1) / 2)\<close> of them said BUY. The code computes the
  threshold as \<open>(n + 1) // 2\<close>, which is one less for every even \<open>n\<close>
  (\<open>majority_threshold_even\<close>). In the cycle \<open>split_vote\<close> two constituents answer, one BUY and
  one SELL, and the code returns BUY although the BUY count 1 is below the stated threshold 2.
\<close>

theorem split_vote_is_resolved_to_BUY:
  "collect_signals (cs_strategies split_vote) (cs_data split_vote) [] = [BUY, SELL]
   \<and> \<not> cs_require_all split_vote
   \<and> CombinedStrategy_signal split_vote = (''EURUSD'', BUY)
   \<and> count_signal BUY [BUY, SELL] = 1
   \<and> spec_majority_threshold (length [BUY, SELL]) = 2"
  by (simp add: split_vote_def CombinedStrategy_init_def CombinedStrategy_signal_def
        count_signal_def majority_threshold_def spec_majority_threshold_def)

section \<open>Volatility analyzer: ranking and selection\<close>

lemma collect_metrics_eq:
  "collect_metrics self mt5 tf symbols acc =
     acc @ List.map_filter (\<lambda>s. calculate_volatility_metrics self mt5 s tf) symbols"
  by (induction symbols arbitrary: acc) (auto simp: List.map_filter_simps split: option.splits)

lemma metrics_symbol:
  "calculate_volatility_metrics self mt5 s tf = Some m \<Longrightarrow> vm_symbol m = s"
  by (auto simp: calculate_volatility_metrics_def Let_def split: if_splits option.splits)

lemma symbols_of_collected:
  "map vm_symbol (List.map_filter (\<lambda>s. calculate_volatility_metrics self mt5 s tf) symbols)
     = filter (\<lambda>s. calculate_volatility_metrics self mt5 s tf \<noteq> None) symbols"
  by (induction symbols) (auto simp: List.map_filter_simps metrics_symbol split: option.splits)

lemma set_sort_reverse: "set (sort_reverse key xs) = set xs"
  by (simp add: sort_reverse_def)

lemma sort_reverse_stable:
  "filter (\<lambda>y. key y = k) (sort_reverse key xs) = filter (\<lambda>y. key y = k) xs"
  by (simp add: sort_reverse_def rev_filter[symmetric] sort_key_stable)

lemma sort_reverse_descending:
  "sorted_wrt (\<lambda>a b. key a \<ge> key b) (sort_reverse key xs)"
proof -
  have "sorted (map key (sort_key key (rev xs)))" by simp
  then have "sorted_wrt (\<lambda>a b. key a \<le> key b) (sort_key key (rev xs))"
    by (simp add: sorted_map)
  then show ?thesis
    by (simp add: sort_reverse_def sorted_wrt_rev)
qed

lemma prefix_slice_to: "prefix (slice_to xs n) xs"
  by (simp add: slice_to_def take_is_prefix)

lemma length_slice_to: "0 \<le> n \<Longrightarrow> length (slice_to xs n) \<le> nat n"
  by (simp add: slice_to_def)

lemma distinct_slice_to: "distinct xs \<Longrightarrow> distinct (slice_to xs n)"
  by (simp add: slice_to_def)

lemma ranked_symbols_of_score:
  "map vm_symbol (filter (\<lambda>r. vm_score r = k) (rank_symbols_by_volatility self mt5 symbols tf)) =
   filter (\<lambda>s. case calculate_volatility_metrics self mt5 s tf of
                  None \<Rightarrow> False | Some m \<Rightarrow> vm_score m = k) symbols"
proof -
  have "map vm_symbol (filter (\<lambda>r. vm_score r = k)
          (List.map_filter (\<lambda>s. calculate_volatility_metrics self mt5 s tf) symbols)) =
        filter (\<lambda>s. case calculate_volatility_metrics self mt5 s tf of
                  None \<Rightarrow> False | Some m \<Rightarrow> vm_score m = k) symbols"
    by (induction symbols) (auto simp: List.map_filter_simps metrics_symbol split: option.splits)
  then show ?thesis
    by (simp add: rank_symbols_by_volatility_def sort_reverse_stable collect_metrics_eq)
qed

lemma distinct_ranked_symbols:
  assumes "distinct symbols"
  shows "distinct (map vm_symbol (rank_symbols_by_volatility self mt5 symbols tf))"
proof -
  let ?C = "List.map_filter (\<lambda>s. calculate_volatility_metrics self mt5 s tf) symbols"
  have "distinct (map vm_symbol ?C)"
    using assms by (simp add: symbols_of_collected)
  then have d: "distinct ?C" and inj: "inj_on vm_symbol (set ?C)"
    by (simp_all add: distinct_map)
  have "distinct (sort_reverse vm_score ?C)"
    using d by (simp add: sort_reverse_def)
  with inj show ?thesis
    by (simp add: rank_symbols_by_volatility_def collect_metrics_eq distinct_map set_sort_reverse)
qed

lemma ranked_symbols_have_metrics:
  "vm_symbol ` set (rank_symbols_by_volatility self mt5 symbols tf)
     = set (filter (\<lambda>s. calculate_volatility_metrics self mt5 s tf \<noteq> None) symbols)"
  unfolding rank_symbols_by_volatility_def set_sort_reverse collect_metrics_eq
  by (simp only: append_Nil set_map[symmetric] symbols_of_collected)

lemma select_nothing:
  assumes "\<forall>s \<in> set symbols. case calculate_volatility_metrics self mt5 s tf of
              None \<Rightarrow> True | Some m \<Rightarrow> vm_score m < thr"
  shows "select_top_volatile_symbols self mt5 symbols n thr tf = []"
proof -
  have "filter (\<lambda>r. vm_score r \<ge> thr)
          (List.map_filter (\<lambda>s. calculate_volatility_metrics self mt5 s tf) symbols) = []"
    using assms by (induction symbols) (auto simp: List.map_filter_simps split: option.splits)
  then have "filter (\<lambda>r. vm_score r \<ge> thr) (rank_symbols_by_volatility self mt5 symbols tf) = []"
    by (simp add: rank_symbols_by_volatility_def collect_metrics_eq filter_empty_conv
          set_sort_reverse)
  then show ?thesis
    by (simp add: select_top_volatile_symbols_def slice_to_def)
qed

text \<open>The metrics of the five instruments of \<open>demo_mt5\<close> under \<open>demo_analyzer\<close>.\<close>

lemma demo_atr:
  "calculate_atr demo_analyzer [flat_bar 2, flat_bar 2, flat_bar 2] = 2"
  "calculate_atr demo_analyzer [flat_bar 4, flat_bar 4, flat_bar 4] = 4"
  by (simp_all add: calculate_atr_def demo_analyzer_def flat_bar_def mean_def upt_rec)

lemma demo_metrics_EURUSD:
  "calculate_volatility_metrics demo_analyzer demo_mt5 ''EURUSD'' tf =
     Some \<lparr> vm_symbol = ''EURUSD'', vm_atr = 2, vm_atr_percentage = 2, vm_volatility = 0,
            vm_price_range = 2, vm_current_price = 100, vm_score = 6 / 5 \<rparr>"
  apply (simp add: calculate_volatility_metrics_def demo_mt5_def demo_atr Let_def)
  apply (simp add: demo_analyzer_def flat_bar_def mean_def std_def)
  done

lemma demo_metrics_XAUUSD:
  "calculate_volatility_metrics demo_analyzer demo_mt5 ''XAUUSD'' tf =
     Some \<lparr> vm_symbol = ''XAUUSD'', vm_atr = 4, vm_atr_percentage = 4, vm_volatility = 0,
            vm_price_range = 4, vm_current_price = 100, vm_score = 12 / 5 \<rparr>"
  apply (simp add: calculate_volatility_metrics_def demo_mt5_def demo_atr Let_def)
  apply (simp add: demo_analyzer_def flat_bar_def mean_def std_def)
  done

lemma demo_metrics_GBPUSD:
  "calculate_volatility_metrics demo_analyzer demo_mt5 ''GBPUSD'' tf =
     Some \<lparr> vm_symbol = ''GBPUSD'', vm_atr = 2, vm_atr_percentage = 2, vm_volatility = 0,
            vm_price_range = 2, vm_current_price = 100, vm_score = 6 / 5 \<rparr>"
  apply (simp add: calculate_volatility_metrics_def demo_mt5_def demo_atr Let_def)
  apply (simp add: demo_analyzer_def flat_bar_def mean_def std_def)
  done

lemma demo_metrics_unavailable:
  "calculate_volatility_metrics demo_analyzer demo_mt5 ''USDJPY'' tf = None"
  "calculate_volatility_metrics demo_analyzer demo_mt5 ''XAGUSD'' tf = None"
  by (simp_all add: calculate_volatility_metrics_def demo_mt5_def demo_analyzer_def)

lemma demo_ranking:
  "map vm_symbol (rank_symbols_by_volatility demo_analyzer demo_mt5 demo_symbols tf) =
     [''XAUUSD'', ''EURUSD'', ''GBPUSD'']"
  by (simp add: rank_symbols_by_volatility_def demo_symbols_def demo_metrics_EURUSD
        demo_metrics_XAUUSD demo_metrics_GBPUSD demo_metrics_unavailable sort_reverse_def)

lemma demo_selection:
  "select_top_volatile_symbols demo_analyzer demo_mt5 demo_symbols 2 (1 / 2) tf =
     [''XAUUSD'', ''EURUSD'']"
  by (simp add: select_top_volatile_symbols_def rank_symbols_by_volatility_def demo_symbols_def
        demo_metrics_EURUSD demo_metrics_XAUUSD demo_metrics_GBPUSD demo_metrics_unavailable
        sort_reverse_def slice_to_def)

lemma demo_default_periods_no_metrics:
  "calculate_volatility_metrics \<lparr>atr_period = 14, lookback_period = 20\<rparr> demo_mt5 s tf = None"
  by (simp add: calculate_volatility_metrics_def demo_mt5_def)

text \<open>
  Claim C6. A symbol that cannot be selected, has no rates, or has fewer than
  \<open>atr_period + lookback_period\<close> bars gets no metrics, and it does not occur in the ranking
  of any candidate list: it is left out, not ranked with a zero score.
\<close>

theorem short_or_missing_series_is_excluded:
  assumes "\<not> symbol_select terminal symbol \<or>
           (case copy_rates_from_pos terminal symbol tf of
              None \<Rightarrow> True
            | Some rates \<Rightarrow> rates = [] \<or> length rates < atr_period self + lookback_period self)"
  shows "calculate_volatility_metrics self terminal symbol tf = None \<and>
         symbol \<notin> vm_symbol ` set (rank_symbols_by_volatility self terminal symbols tf)"
proof -
  have "calculate_volatility_metrics self terminal symbol tf = None"
    using assms by (auto simp: calculate_volatility_metrics_def split: option.splits)
  then show ?thesis
    by (simp add: ranked_symbols_have_metrics)
qed

text \<open>
  In \<open>demo_mt5\<close>, USDJPY has one bar where two are required and XAGUSD cannot be selected:
  neither has metrics and neither is in the ranking of \<open>demo_symbols\<close>.
\<close>

theorem short_or_missing_series_is_excluded_witness:
  "symbol_select demo_mt5 ''USDJPY''
   \<and> copy_rates_from_pos demo_mt5 ''USDJPY'' TIMEFRAME_H1 = Some [flat_bar 2]
   \<and> length [flat_bar 2] < atr_period demo_analyzer + lookback_period demo_analyzer
   \<and> calculate_volatility_metrics demo_analyzer demo_mt5 ''USDJPY'' TIMEFRAME_H1 = None
   \<and> ''USDJPY'' \<notin> vm_symbol `
        set (rank_symbols_by_volatility demo_analyzer demo_mt5 demo_symbols TIMEFRAME_H1)
   \<and> \<not> symbol_select demo_mt5 ''XAGUSD''
   \<and> calculate_volatility_metrics demo_analyzer demo_mt5 ''XAGUSD'' TIMEFRAME_H1 = None
   \<and> ''XAGUSD'' \<notin> vm_symbol `
        set (rank_symbols_by_volatility demo_analyzer demo_mt5 demo_symbols TIMEFRAME_H1)"
  using short_or_missing_series_is_excluded
          [where terminal = demo_mt5 and symbol = "''USDJPY''" and tf = TIMEFRAME_H1
             and self = demo_analyzer and symbols = demo_symbols]
        short_or_missing_series_is_excluded
          [where terminal = demo_mt5 and symbol = "''XAGUSD''" and tf = TIMEFRAME_H1
             and self = demo_analyzer and symbols = demo_symbols]
  by (simp add: demo_mt5_def demo_analyzer_def)

text \<open>
  Claim C7. The selected symbols are a prefix of the ranking restricted to the entries with
  score at least \<open>min_score\<close>; the ranking is in descending order of score; the selection has at
  most \<open>max_symbols\<close> entries (for a non-negative \<open>max_symbols\<close>; Python's slice with a negative
  bound keeps all but the last entries); it has no duplicates when the candidates have none;
  and the symbols of any one score occur in the ranking in their order in the candidate list.
\<close>

theorem selection_is_prefix_of_stable_descending_ranking:
  "prefix (select_top_volatile_symbols self terminal symbols max_symbols min_score tf)
          (map vm_symbol (filter (\<lambda>r. vm_score r \<ge> min_score)
                            (rank_symbols_by_volatility self terminal symbols tf)))
   \<and> sorted_wrt (\<lambda>a b. vm_score a \<ge> vm_score b) (rank_symbols_by_volatility self terminal symbols tf)
   \<and> (0 \<le> max_symbols \<longrightarrow>
        length (select_top_volatile_symbols self terminal symbols max_symbols min_score tf)
          \<le> nat max_symbols)
   \<and> (distinct symbols \<longrightarrow>
        distinct (select_top_volatile_symbols self terminal symbols max_symbols min_score tf))
   \<and> (\<forall>k. map vm_symbol (filter (\<lambda>r. vm_score r = k)
                             (rank_symbols_by_volatility self terminal symbols tf)) =
            filter (\<lambda>s. case calculate_volatility_metrics self terminal s tf of
                           None \<Rightarrow> False | Some m \<Rightarrow> vm_score m = k) symbols)"
proof (intro conjI impI allI)
  let ?ranked = "rank_symbols_by_volatility self terminal symbols tf"
  let ?selected = "select_top_volatile_symbols self terminal symbols max_symbols min_score tf"
  show "prefix ?selected (map vm_symbol (filter (\<lambda>r. vm_score r \<ge> min_score) ?ranked))"
    by (simp add: select_top_volatile_symbols_def prefix_slice_to)
  show "sorted_wrt (\<lambda>a b. vm_score a \<ge> vm_score b) ?ranked"
    by (simp add: rank_symbols_by_volatility_def sort_reverse_descending)
  show "length ?selected \<le> nat max_symbols" if "0 \<le> max_symbols"
    using that by (simp add: select_top_volatile_symbols_def length_slice_to)
  show "distinct ?selected" if "distinct symbols"
  proof -
    have "distinct (map vm_symbol ?ranked)"
      using that by (simp add: distinct_ranked_symbols)
    then have "distinct (map vm_symbol (filter (\<lambda>r. vm_score r \<ge> min_score) ?ranked))"
      by (simp add: distinct_map_filter)
    then show ?thesis
      by (simp add: select_top_volatile_symbols_def distinct_slice_to)
  qed
  show "map vm_symbol (filter (\<lambda>r. vm_score r = k) ?ranked) =
        filter (\<lambda>s. case calculate_volatility_metrics self terminal s tf of
                       None \<Rightarrow> False | Some m \<Rightarrow> vm_score m = k) symbols" for k
    by (simp add: ranked_symbols_of_score)
qed

text \<open>
  In \<open>demo_mt5\<close> the scores are XAUUSD 2.4, EURUSD 1.2 and GBPUSD 1.2: the two best of the
  five candidates are XAUUSD and EURUSD, the tie going to EURUSD, which comes first in the
  candidate list.
\<close>

theorem selection_is_prefix_of_stable_descending_ranking_witness:
  "(0::int) \<le> 2 \<and> distinct demo_symbols
   \<and> select_top_volatile_symbols demo_analyzer demo_mt5 demo_symbols 2 (1 / 2) TIMEFRAME_H1
       = [''XAUUSD'', ''EURUSD'']
   \<and> prefix [''XAUUSD'', ''EURUSD'']
        (map vm_symbol (filter (\<lambda>r. vm_score r \<ge> 1 / 2)
           (rank_symbols_by_volatility demo_analyzer demo_mt5 demo_symbols TIMEFRAME_H1)))
   \<and> length (select_top_volatile_symbols demo_analyzer demo_mt5 demo_symbols 2 (1 / 2)
               TIMEFRAME_H1) \<le> 2
   \<and> distinct (select_top_volatile_symbols demo_analyzer demo_mt5 demo_symbols 2 (1 / 2)
                 TIMEFRAME_H1)
   \<and> map vm_symbol (filter (\<lambda>r. vm_score r = 6 / 5)
        (rank_symbols_by_volatility demo_analyzer demo_mt5 demo_symbols TIMEFRAME_H1))
       = [''EURUSD'', ''GBPUSD'']"
proof -
  have d: "distinct demo_symbols" by (simp add: demo_symbols_def)
  have tie: "filter (\<lambda>s. case calculate_volatility_metrics demo_analyzer demo_mt5 s TIMEFRAME_H1 of
                           None \<Rightarrow> False | Some m \<Rightarrow> vm_score m = 6 / 5) demo_symbols
             = [''EURUSD'', ''GBPUSD'']"
    by (simp add: demo_symbols_def demo_metrics_EURUSD demo_metrics_XAUUSD demo_metrics_GBPUSD
          demo_metrics_unavailable)
  note facts = selection_is_prefix_of_stable_descending_ranking
    [where self = demo_analyzer and terminal = demo_mt5 and symbols = demo_symbols
       and max_symbols = 2 and min_score = "1 / 2" and tf = TIMEFRAME_H1]
  from facts d have
    "prefix (select_top_volatile_symbols demo_analyzer demo_mt5 demo_symbols 2 (1 / 2) TIMEFRAME_H1)
        (map vm_symbol (filter (\<lambda>r. vm_score r \<ge> 1 / 2)
           (rank_symbols_by_volatility demo_analyzer demo_mt5 demo_symbols TIMEFRAME_H1)))"
    and "length (select_top_volatile_symbols demo_analyzer demo_mt5 demo_symbols 2 (1 / 2)
               TIMEFRAME_H1) \<le> 2"
    and "distinct (select_top_volatile_symbols demo_analyzer demo_mt5 demo_symbols 2 (1 / 2)
                 TIMEFRAME_H1)"
    by simp_all
  moreover from facts have
    "map vm_symbol (filter (\<lambda>r. vm_score r = 6 / 5)
           (rank_symbols_by_volatility demo_analyzer demo_mt5 demo_symbols TIMEFRAME_H1))
         = filter (\<lambda>s. case calculate_volatility_metrics demo_analyzer demo_mt5 s TIMEFRAME_H1 of
                           None \<Rightarrow> False | Some m \<Rightarrow> vm_score m = 6 / 5) demo_symbols"
    by blast
  ultimately show ?thesis
    using d by (simp add: demo_selection tie)
qed

text \<open>
  Claim C2, as stated: when the selection selects no symbol, the operation falls back to the
  first \<open>max_n\<close> candidates. With the default periods no instrument of \<open>demo_mt5\<close> has the 34
  bars required, the ranking is empty, and \<open>select_volatile_symbols\<close> returns the empty list,
  not the first three candidates.
\<close>

theorem empty_selection_is_returned_counterexample:
  "select_top_volatile_symbols \<lparr>atr_period = 14, lookback_period = 20\<rparr> demo_mt5 demo_symbols 3
     (1 / 2) TIMEFRAME_H1 = []
   \<and> select_volatile_symbols demo_mt5 (Inr \<lparr>volatility_config = None\<rparr>) demo_symbols 3 = []
   \<and> slice_to demo_symbols 3 = [''EURUSD'', ''XAUUSD'', ''GBPUSD'']"
proof -
  have "select_top_volatile_symbols \<lparr>atr_period = 14, lookback_period = 20\<rparr> demo_mt5
          demo_symbols 3 (1 / 2) TIMEFRAME_H1 = []"
    by (rule select_nothing) (simp add: demo_default_periods_no_metrics)
  moreover have "initialize demo_mt5" "login demo_mt5"
    by (simp_all add: demo_mt5_def)
  ultimately show ?thesis
    by (simp add: select_volatile_symbols_def VolatilityAnalyzer_init_def min_threshold_of_def
          slice_to_def demo_symbols_def)
qed

text \<open>
  Claim C2, amended. \<open>select_volatile_symbols\<close> falls back to the first \<open>max_symbols\<close>
  candidates, in their order, when building the analyzer or loading the configuration raises;
  when the selection runs and no candidate has metrics with a score of at least the
  threshold, it returns the empty list.
\<close>

theorem fallback_only_when_selection_raises:
  "((\<not> initialize terminal \<or> \<not> login terminal \<or> isl load_config) \<longrightarrow>
      select_volatile_symbols terminal load_config candidates max_symbols
        = slice_to candidates max_symbols)
   \<and> (initialize terminal \<and> login terminal \<and> load_config = Inr config \<and>
       (\<forall>s \<in> set candidates.
          case calculate_volatility_metrics \<lparr>atr_period = 14, lookback_period = 20\<rparr> terminal s
                 TIMEFRAME_H1 of
            None \<Rightarrow> True
          | Some m \<Rightarrow> vm_score m < min_threshold_of config) \<longrightarrow>
      select_volatile_symbols terminal load_config candidates max_symbols = [])"
proof (intro conjI impI)
  assume "\<not> initialize terminal \<or> \<not> login terminal \<or> isl load_config"
  then show "select_volatile_symbols terminal load_config candidates max_symbols
               = slice_to candidates max_symbols"
    by (auto simp: select_volatile_symbols_def VolatilityAnalyzer_init_def split: sum.splits)
next
  assume a: "initialize terminal \<and> login terminal \<and> load_config = Inr config \<and>
       (\<forall>s \<in> set candidates.
          case calculate_volatility_metrics \<lparr>atr_period = 14, lookback_period = 20\<rparr> terminal s
                 TIMEFRAME_H1 of
            None \<Rightarrow> True
          | Some m \<Rightarrow> vm_score m < min_threshold_of config)"
  then have "select_top_volatile_symbols \<lparr>atr_period = 14, lookback_period = 20\<rparr> terminal candidates
               max_symbols (min_threshold_of config) TIMEFRAME_H1 = []"
    by (intro select_nothing) simp
  with a show "select_volatile_symbols terminal load_config candidates max_symbols = []"
    by (simp add: select_volatile_symbols_def VolatilityAnalyzer_init_def)
qed

text \<open>
  A terminal that cannot be initialised gives the first two candidates; a configuration that
  cannot be loaded does the same; the working terminal \<open>demo_mt5\<close>, where no candidate has
  enough bars, gives nothing.
\<close>

theorem fallback_only_when_selection_raises_witness:
  "\<not> initialize (demo_mt5\<lparr>initialize := False\<rparr>)
   \<and> select_volatile_symbols (demo_mt5\<lparr>initialize := False\<rparr>) (Inr \<lparr>volatility_config = None\<rparr>)
        demo_symbols 2 = [''EURUSD'', ''XAUUSD'']
   \<and> select_volatile_symbols demo_mt5 (Inl (OtherError ''bad yaml'')) demo_symbols 2
        = [''EURUSD'', ''XAUUSD'']
   \<and> initialize demo_mt5 \<and> login demo_mt5
   \<and> select_volatile_symbols demo_mt5 (Inr \<lparr>volatility_config = None\<rparr>) demo_symbols 2 = []"
  using fallback_only_when_selection_raises
          [where terminal = "demo_mt5\<lparr>initialize := False\<rparr>"
             and load_config = "Inr \<lparr>volatility_config = None\<rparr>"
             and candidates = demo_symbols and max_symbols = 2]
        fallback_only_when_selection_raises
          [where terminal = demo_mt5 and load_config = "Inl (OtherError ''bad yaml'')"
             and candidates = demo_symbols and max_symbols = 2]
        fallback_only_when_selection_raises
          [where terminal = demo_mt5 and load_config = "Inr \<lparr>volatility_config = None\<rparr>"
             and candidates = demo_symbols and max_symbols = 2
             and config = "\<lparr>volatility_config = None\<rparr>"]
  by (simp add: demo_default_periods_no_metrics)
     (simp add: demo_mt5_def slice_to_def demo_symbols_def)

section \<open>Risk manager: position size and risk limits\<close>

lemma py_round_nearest: "\<bar>x - of_int (py_round x)\<bar> \<le> 1 / 2"
  unfolding py_round_def Let_def by (auto; linarith)

lemma py_round_of_int: "py_round (of_int k) = k"
  by (simp add: py_round_def)

lemma price_diff_nonzero: "price_diff_of info sl \<noteq> 0 \<Longrightarrow> trade_tick_size info \<noteq> 0"
  by (auto simp: price_diff_of_def split: if_splits)

lemma size_missing_data:
  assumes "\<not> symbol_select mt5 symbol \<or> symbol_info mt5 symbol = None
           \<or> symbol_info_tick mt5 symbol = None
           \<or> (\<exists>info. symbol_info mt5 symbol = Some info \<and> price_diff_of info sl = 0)"
  shows "calculate_position_size self mt5 symbol sl ra vm = 0"
  using assms
  by (auto simp: calculate_position_size_def calculate_position_size_try_def Let_def
           split: option.splits sum.splits)

lemma size_raises:
  assumes "symbol_info mt5 symbol = Some info"
    and "vm = 0 \<or> trade_tick_value info = 0 \<or> volume_step info = 0"
  shows "calculate_position_size self mt5 symbol sl ra vm = 0"
  using assms
  by (auto simp: calculate_position_size_def calculate_position_size_try_def Let_def truediv_def
           split: option.splits sum.splits if_splits)

lemma size_computed:
  assumes "symbol_select mt5 symbol" "symbol_info mt5 symbol = Some info"
    "symbol_info_tick mt5 symbol \<noteq> None" "price_diff_of info sl \<noteq> 0"
    "vm \<noteq> 0" "trade_tick_value info \<noteq> 0" "volume_step info \<noteq> 0"
  shows "calculate_position_size self mt5 symbol sl ra vm =
         max (volume_min info)
             (min (of_int (py_round (spec_raw_size self mt5 info sl ra vm / volume_step info))
                     * volume_step info)
                  (volume_max info))"
  using assms price_diff_nonzero[OF assms(4)]
  by (auto simp: calculate_position_size_def calculate_position_size_try_def Let_def truediv_def
         spec_raw_size_def)

lemma account_fields:
  "symbol_select (account_mt5 funds info) ''EURUSD''"
  "\<not> symbol_select (account_mt5 funds info) ''GBPUSD''"
  "symbol_info (account_mt5 funds info) ''EURUSD'' = Some info"
  "symbol_info_tick (account_mt5 funds info) ''EURUSD'' = Some \<lparr> bid = 11 / 10, ask = 11002 / 10000 \<rparr>"
  "get_account_balance (account_mt5 funds info) = funds"
  "get_total_exposure (account_mt5 funds info) None
     = \<lparr> total_positions = 0, total_volume = 0, total_profit = 0 \<rparr>"
  by (simp_all add: account_mt5_def get_account_balance_def get_total_exposure_def)

lemma eurusd_fields:
  "trade_tick_size (eurusd tv ml) = 1 / 100000"
  "trade_tick_value (eurusd tv ml) = tv"
  "digits (eurusd tv ml) = 5"
  "volume_min (eurusd tv ml) = ml"
  "volume_max (eurusd tv ml) = 100"
  "volume_step (eurusd tv ml) = 1 / 100"
  by (simp_all add: eurusd_def)

lemma eurusd_price_diff: "price_diff_of (eurusd tv ml) sl = sl / 10000"
  by (simp add: price_diff_of_def eurusd_fields)

lemma demo_raw_size:
  "spec_raw_size default_limits (account_mt5 10000 (eurusd 1 ml)) (eurusd 1 ml) 50 None 1 = 2 / 5"
  by (simp add: spec_raw_size_def account_fields eurusd_fields eurusd_price_diff default_limits_def)

lemma py_round_40: "py_round 40 = 40"
  using py_round_of_int[of 40] by simp


text \<open>
  Claim C3. With an account balance of zero (also the value \<open>get_account_balance\<close> gives
  when the account information is unavailable), \<open>check_risk_limits\<close> returns
  \<open>(False, "Account balance is zero")\<close> for every symbol, proposed size and stop loss.
\<close>

theorem zero_balance_is_rejected:
  assumes "get_account_balance terminal = 0"
  shows "check_risk_limits self terminal symbol proposed_size stop_loss
           = (False, Account_balance_is_zero)
       \<and> reason_message fmt str_of
           (snd (check_risk_limits self terminal symbol proposed_size stop_loss))
           = ''Account balance is zero''"
  using assms by (simp add: check_risk_limits_def check_risk_limits_try_def)

text \<open>The zero-balance rejection on an account holding nothing, for a proposed size of 5 lots.\<close>

theorem zero_balance_is_rejected_witness:
  "get_account_balance (account_mt5 0 (eurusd 1 (1 / 100))) = 0
   \<and> check_risk_limits default_limits (account_mt5 0 (eurusd 1 (1 / 100))) ''EURUSD'' 5 50
       = (False, Account_balance_is_zero)
   \<and> reason_message (\<lambda>x. ''0.00'') (\<lambda>e. ''error'')
        (snd (check_risk_limits default_limits (account_mt5 0 (eurusd 1 (1 / 100))) ''EURUSD'' 5 50))
       = ''Account balance is zero''"
  using zero_balance_is_rejected
    [where terminal = "account_mt5 0 (eurusd 1 (1 / 100))" and self = default_limits
       and symbol = "''EURUSD''" and proposed_size = 5 and stop_loss = 50
       and fmt = "\<lambda>x. ''0.00''" and str_of = "\<lambda>e. ''error''"]
  by (simp add: account_fields)

text \<open>
  Claim C4, as stated: with symbol, metadata and tick available and a non-zero price
  difference, the size is the rounded raw size clamped into \<open>[volume_min, volume_max]\<close>. For an
  instrument whose tick value is reported as zero the division by the risk per lot raises
  \<open>ZeroDivisionError\<close>, the handler returns \<open>0.0\<close>, and \<open>0.0\<close> is below the minimum lot.
\<close>

theorem zero_tick_value_size_counterexample:
  "symbol_select (account_mt5 10000 (eurusd 0 (1 / 100))) ''EURUSD''
   \<and> symbol_info (account_mt5 10000 (eurusd 0 (1 / 100))) ''EURUSD'' = Some (eurusd 0 (1 / 100))
   \<and> symbol_info_tick (account_mt5 10000 (eurusd 0 (1 / 100))) ''EURUSD'' \<noteq> None
   \<and> price_diff_of (eurusd 0 (1 / 100)) 50 \<noteq> 0
   \<and> calculate_position_size default_limits (account_mt5 10000 (eurusd 0 (1 / 100))) ''EURUSD'' 50 None 1 = 0
   \<and> \<not> (volume_min (eurusd 0 (1 / 100))
          \<le> calculate_position_size default_limits (account_mt5 10000 (eurusd 0 (1 / 100))) ''EURUSD'' 50 None 1)"
proof -
  have "calculate_position_size default_limits (account_mt5 10000 (eurusd 0 (1 / 100))) ''EURUSD'' 50 None 1 = 0"
    by (simp add: calculate_position_size_def calculate_position_size_try_def account_fields
          eurusd_fields eurusd_price_diff truediv_def default_limits_def)
  then show ?thesis
    by (simp add: account_fields eurusd_fields eurusd_price_diff)
qed

text \<open>
  Claim C4, amended. \<open>calculate_position_size\<close> returns \<open>0.0\<close> when market data is missing
  (symbol not selectable, metadata or tick unavailable, zero price difference) and when the
  computation raises (zero volatility multiplier, zero tick value or zero lot step). Otherwise
  it returns the raw size, rounded to the nearest multiple of the lot step
  (\<open>round(raw / step) * step\<close>) and then clamped by \<open>max(min_lot, min(size, max_lot))\<close>; that
  value is at least \<open>volume_min\<close>, and at most \<open>volume_max\<close> when \<open>volume_min \<le> volume_max\<close>.
\<close>

theorem position_size_is_zero_or_rounded_and_clamped:
  "(\<not> symbol_select terminal symbol \<or> symbol_info terminal symbol = None
      \<or> symbol_info_tick terminal symbol = None
      \<or> (\<exists>info. symbol_info terminal symbol = Some info \<and> price_diff_of info stop_loss = 0)
     \<longrightarrow> calculate_position_size self terminal symbol stop_loss risk_amount multiplier = 0)
   \<and> (symbol_info terminal symbol = Some info
        \<and> (multiplier = 0 \<or> trade_tick_value info = 0 \<or> volume_step info = 0)
     \<longrightarrow> calculate_position_size self terminal symbol stop_loss risk_amount multiplier = 0)
   \<and> (symbol_select terminal symbol \<and> symbol_info terminal symbol = Some info
        \<and> symbol_info_tick terminal symbol \<noteq> None \<and> price_diff_of info stop_loss \<noteq> 0
        \<and> multiplier \<noteq> 0 \<and> trade_tick_value info \<noteq> 0 \<and> volume_step info \<noteq> 0
     \<longrightarrow> calculate_position_size self terminal symbol stop_loss risk_amount multiplier
           = max (volume_min info)
               (min (of_int (py_round (spec_raw_size self terminal info stop_loss risk_amount
                                         multiplier / volume_step info)) * volume_step info)
                    (volume_max info))
         \<and> \<bar>spec_raw_size self terminal info stop_loss risk_amount multiplier / volume_step info
              - of_int (py_round (spec_raw_size self terminal info stop_loss risk_amount
                                    multiplier / volume_step info))\<bar> \<le> 1 / 2
         \<and> volume_min info
              \<le> calculate_position_size self terminal symbol stop_loss risk_amount multiplier
         \<and> (volume_min info \<le> volume_max info \<longrightarrow>
              calculate_position_size self terminal symbol stop_loss risk_amount multiplier
                \<le> volume_max info))"
proof (intro conjI impI)
  assume "\<not> symbol_select terminal symbol \<or> symbol_info terminal symbol = None
      \<or> symbol_info_tick terminal symbol = None
      \<or> (\<exists>info. symbol_info terminal symbol = Some info \<and> price_diff_of info stop_loss = 0)"
  then show "calculate_position_size self terminal symbol stop_loss risk_amount multiplier = 0"
    by (rule size_missing_data)
next
  assume "symbol_info terminal symbol = Some info
        \<and> (multiplier = 0 \<or> trade_tick_value info = 0 \<or> volume_step info = 0)"
  then show "calculate_position_size self terminal symbol stop_loss risk_amount multiplier = 0"
    using size_raises by blast
next
  assume a: "symbol_select terminal symbol \<and> symbol_info terminal symbol = Some info
        \<and> symbol_info_tick terminal symbol \<noteq> None \<and> price_diff_of info stop_loss \<noteq> 0
        \<and> multiplier \<noteq> 0 \<and> trade_tick_value info \<noteq> 0 \<and> volume_step info \<noteq> 0"
  then have eq: "calculate_position_size self terminal symbol stop_loss risk_amount multiplier
           = max (volume_min info)
               (min (of_int (py_round (spec_raw_size self terminal info stop_loss risk_amount
                                         multiplier / volume_step info)) * volume_step info)
                    (volume_max info))"
    by (intro size_computed) simp_all
  show "calculate_position_size self terminal symbol stop_loss risk_amount multiplier
           = max (volume_min info)
               (min (of_int (py_round (spec_raw_size self terminal info stop_loss risk_amount
                                         multiplier / volume_step info)) * volume_step info)
                    (volume_max info))"
    by (rule eq)
  show "\<bar>spec_raw_size self terminal info stop_loss risk_amount multiplier / volume_step info
              - of_int (py_round (spec_raw_size self terminal info stop_loss risk_amount
                                    multiplier / volume_step info))\<bar> \<le> 1 / 2"
    by (rule py_round_nearest)
  show "volume_min info
              \<le> calculate_position_size self terminal symbol stop_loss risk_amount multiplier"
    unfolding eq by simp
  show "calculate_position_size self terminal symbol stop_loss risk_amount multiplier
                \<le> volume_max info" if "volume_min info \<le> volume_max info"
    unfolding eq using that by simp
qed

text \<open>
  One instance of each case: GBPUSD cannot be selected; EURUSD with a zero tick value; EURUSD
  with tick value 1, where a 200 risk budget over a 50 pip stop gives 0.4 lots.
\<close>

theorem position_size_is_zero_or_rounded_and_clamped_witness:
  "\<not> symbol_select (account_mt5 10000 (eurusd 1 (1 / 100))) ''GBPUSD''
   \<and> calculate_position_size default_limits (account_mt5 10000 (eurusd 1 (1 / 100))) ''GBPUSD'' 50 None 1 = 0
   \<and> trade_tick_value (eurusd 0 (1 / 100)) = 0
   \<and> calculate_position_size default_limits (account_mt5 10000 (eurusd 0 (1 / 100))) ''EURUSD'' 50 None 1 = 0
   \<and> symbol_select (account_mt5 10000 (eurusd 1 (1 / 100))) ''EURUSD''
   \<and> price_diff_of (eurusd 1 (1 / 100)) 50 \<noteq> 0
   \<and> calculate_position_size default_limits (account_mt5 10000 (eurusd 1 (1 / 100))) ''EURUSD'' 50 None 1 = 2 / 5
   \<and> volume_min (eurusd 1 (1 / 100)) \<le> 2 / 5 \<and> 2 / 5 \<le> volume_max (eurusd 1 (1 / 100))"
  using position_size_is_zero_or_rounded_and_clamped
    [where terminal = "account_mt5 10000 (eurusd 1 (1 / 100))" and self = default_limits
       and symbol = "''GBPUSD''" and stop_loss = 50 and risk_amount = None and multiplier = 1]
    position_size_is_zero_or_rounded_and_clamped
    [where terminal = "account_mt5 10000 (eurusd 0 (1 / 100))" and self = default_limits
       and symbol = "''EURUSD''" and stop_loss = 50 and risk_amount = None and multiplier = 1
       and info = "eurusd 0 (1 / 100)"]
    position_size_is_zero_or_rounded_and_clamped
    [where terminal = "account_mt5 10000 (eurusd 1 (1 / 100))" and self = default_limits
       and symbol = "''EURUSD''" and stop_loss = 50 and risk_amount = None and multiplier = 1
       and info = "eurusd 1 (1 / 100)"]
  by (simp add: account_fields eurusd_fields eurusd_price_diff demo_raw_size py_round_40)

text \<open>
  Claim C9, as stated: with metadata and tick available and a non-zero price difference the
  returned size is at least \<open>volume_min\<close>, so \<open>0.0\<close> comes from the missing-data branches only.
  An instrument with minimum lot 0.1 whose tick value is reported as zero gets size \<open>0.0\<close>
  from the exception handler.
\<close>

theorem zero_tick_value_below_volume_min_counterexample:
  "symbol_select (account_mt5 500 (eurusd 0 (1 / 10))) ''EURUSD''
   \<and> symbol_info (account_mt5 500 (eurusd 0 (1 / 10))) ''EURUSD'' = Some (eurusd 0 (1 / 10))
   \<and> symbol_info_tick (account_mt5 500 (eurusd 0 (1 / 10))) ''EURUSD'' \<noteq> None
   \<and> price_diff_of (eurusd 0 (1 / 10)) 20 \<noteq> 0
   \<and> calculate_position_size default_limits (account_mt5 500 (eurusd 0 (1 / 10))) ''EURUSD'' 20 None 1
       < volume_min (eurusd 0 (1 / 10))"
proof -
  have "calculate_position_size default_limits (account_mt5 500 (eurusd 0 (1 / 10))) ''EURUSD'' 20 None 1 = 0"
    by (simp add: calculate_position_size_def calculate_position_size_try_def account_fields
          eurusd_fields eurusd_price_diff truediv_def default_limits_def)
  then show ?thesis
    by (simp add: account_fields eurusd_fields eurusd_price_diff)
qed

text \<open>
  Claim C9, amended. With metadata and tick available, a non-zero price difference, and a
  non-zero volatility multiplier, tick value and lot step, the returned size is at least
  \<open>volume_min\<close>, also when the raw size rounds to zero lots. For an instrument with a positive
  minimum lot, \<open>0.0\<close> is returned exactly on the missing-data branches and when the
  computation raises; it never stands for a risk budget that is too small.
\<close>

theorem size_at_least_volume_min_unless_missing_or_raising:
  assumes "symbol_info terminal symbol = Some info"
  shows "(symbol_select terminal symbol \<and> symbol_info_tick terminal symbol \<noteq> None
          \<and> price_diff_of info stop_loss \<noteq> 0
          \<and> multiplier \<noteq> 0 \<and> trade_tick_value info \<noteq> 0 \<and> volume_step info \<noteq> 0
        \<longrightarrow> volume_min info
              \<le> calculate_position_size self terminal symbol stop_loss risk_amount multiplier)
      \<and> (0 < volume_min info \<longrightarrow>
           (calculate_position_size self terminal symbol stop_loss risk_amount multiplier = 0)
           = (\<not> symbol_select terminal symbol \<or> symbol_info_tick terminal symbol = None
              \<or> price_diff_of info stop_loss = 0
              \<or> multiplier = 0 \<or> trade_tick_value info = 0 \<or> volume_step info = 0))"
proof (intro conjI impI)
  assume a: "symbol_select terminal symbol \<and> symbol_info_tick terminal symbol \<noteq> None
          \<and> price_diff_of info stop_loss \<noteq> 0
          \<and> multiplier \<noteq> 0 \<and> trade_tick_value info \<noteq> 0 \<and> volume_step info \<noteq> 0"
  with assms have "calculate_position_size self terminal symbol stop_loss risk_amount multiplier
           = max (volume_min info)
               (min (of_int (py_round (spec_raw_size self terminal info stop_loss risk_amount
                                         multiplier / volume_step info)) * volume_step info)
                    (volume_max info))"
    by (intro size_computed) simp_all
  then show "volume_min info
              \<le> calculate_position_size self terminal symbol stop_loss risk_amount multiplier"
    by simp
next
  assume pos: "0 < volume_min info"
  let ?size = "calculate_position_size self terminal symbol stop_loss risk_amount multiplier"
  let ?bad = "\<not> symbol_select terminal symbol \<or> symbol_info_tick terminal symbol = None
              \<or> price_diff_of info stop_loss = 0
              \<or> multiplier = 0 \<or> trade_tick_value info = 0 \<or> volume_step info = 0"
  show "(?size = 0) = ?bad"
  proof
    assume z: "?size = 0"
    show ?bad
    proof (rule ccontr)
      assume "\<not> ?bad"
      with assms have "?size
           = max (volume_min info)
               (min (of_int (py_round (spec_raw_size self terminal info stop_loss risk_amount
                                         multiplier / volume_step info)) * volume_step info)
                    (volume_max info))"
        by (intro size_computed) simp_all
      then have "volume_min info \<le> ?size" by simp
      with pos z show False by simp
    qed
  next
    assume ?bad
    then consider "\<not> symbol_select terminal symbol \<or> symbol_info_tick terminal symbol = None
              \<or> price_diff_of info stop_loss = 0"
      | "multiplier = 0 \<or> trade_tick_value info = 0 \<or> volume_step info = 0" by blast
    then show "?size = 0"
    proof cases
      case 1
      with assms show ?thesis by (intro size_missing_data) auto
    next
      case 2
      with assms show ?thesis by (intro size_raises) auto
    qed
  qed
qed

text \<open>The 0.4 lots of the EURUSD example are above the minimum lot 0.01 and not zero.\<close>

theorem size_at_least_volume_min_unless_missing_or_raising_witness:
  "symbol_info (account_mt5 10000 (eurusd 1 (1 / 100))) ''EURUSD'' = Some (eurusd 1 (1 / 100))
   \<and> symbol_select (account_mt5 10000 (eurusd 1 (1 / 100))) ''EURUSD''
   \<and> price_diff_of (eurusd 1 (1 / 100)) 50 \<noteq> 0
   \<and> trade_tick_value (eurusd 1 (1 / 100)) \<noteq> 0
   \<and> volume_step (eurusd 1 (1 / 100)) \<noteq> 0
   \<and> 0 < volume_min (eurusd 1 (1 / 100))
   \<and> volume_min (eurusd 1 (1 / 100))
        \<le> calculate_position_size default_limits (account_mt5 10000 (eurusd 1 (1 / 100))) ''EURUSD'' 50 None 1
   \<and> calculate_position_size default_limits (account_mt5 10000 (eurusd 1 (1 / 100))) ''EURUSD'' 50 None 1 \<noteq> 0"
  using size_at_least_volume_min_unless_missing_or_raising
    [where terminal = "account_mt5 10000 (eurusd 1 (1 / 100))" and self = default_limits
       and symbol = "''EURUSD''" and stop_loss = 50 and risk_amount = None and multiplier = 1
       and info = "eurusd 1 (1 / 100)"]
  by (simp add: account_fields eurusd_fields eurusd_price_diff)

text \<open>
  Claim C8, as stated: with a strictly negative balance any proposed size is allowed, provided
  symbol metadata and tick are available. For an instrument whose tick size is reported as
  zero the position risk cannot be computed: the division raises \<open>ZeroDivisionError\<close> and the
  handler answers \<open>False\<close> with an error message, although metadata and tick are available.
\<close>

theorem zero_tick_size_is_rejected_counterexample:
  "get_account_balance (account_mt5 (- 100) zero_tick_size) < 0
   \<and> symbol_info (account_mt5 (- 100) zero_tick_size) ''EURUSD'' = Some zero_tick_size
   \<and> symbol_info_tick (account_mt5 (- 100) zero_tick_size) ''EURUSD'' \<noteq> None
   \<and> check_risk_limits default_limits (account_mt5 (- 100) zero_tick_size) ''EURUSD'' 100 50
       = (False, Error_checking ZeroDivisionError)"
  by (simp add: check_risk_limits_def check_risk_limits_try_def account_fields truediv_def
        zero_tick_size_def)

text \<open>
  Claim C8, amended. With a strictly negative balance and risk limits that are non-negative
  fractions, the zero-balance guard does not fire, both \<open>position_risk_percent\<close> and
  \<open>current_total_risk\<close> are computed as \<open>0\<close>, and no proposed size is ever rejected for
  exceeding the per-symbol or the total limit. With metadata and tick available the check
  passes for every proposed size when the tick size is non-zero; when the tick size is zero the
  division raises and the check answers \<open>False\<close> with an error, not a risk rejection.
\<close>

theorem negative_balance_is_never_rejected_on_risk_grounds:
  assumes "get_account_balance terminal < 0"
    and "0 \<le> risk_per_symbol self" and "0 \<le> max_total_risk self"
  shows "position_risk_percent (get_account_balance terminal) risk = 0
       \<and> current_total_risk (get_account_balance terminal) exposure = 0
       \<and> (\<forall>r l. snd (check_risk_limits self terminal symbol proposed_size stop_loss)
                   \<noteq> Position_risk_exceeds r l
                \<and> snd (check_risk_limits self terminal symbol proposed_size stop_loss)
                   \<noteq> Total_risk_exceeds r l)
       \<and> (symbol_info terminal symbol = Some info \<and> symbol_info_tick terminal symbol \<noteq> None
            \<and> trade_tick_size info \<noteq> 0 \<longrightarrow>
          check_risk_limits self terminal symbol proposed_size stop_loss
            = (True, Risk_check_passed 0 0))
       \<and> (symbol_info terminal symbol = Some info \<and> symbol_info_tick terminal symbol \<noteq> None
            \<and> trade_tick_size info = 0 \<longrightarrow>
          check_risk_limits self terminal symbol proposed_size stop_loss
            = (False, Error_checking ZeroDivisionError))"
  using assms
  by (auto simp: check_risk_limits_def check_risk_limits_try_def Let_def truediv_def
        position_risk_percent_def current_total_risk_def split: option.splits)

text \<open>
  An account at -100 is allowed a position of 100 lots; with the zero tick size the same
  request is refused.
\<close>

theorem negative_balance_is_never_rejected_on_risk_grounds_witness:
  "get_account_balance (account_mt5 (- 100) (eurusd 1 (1 / 100))) < 0
   \<and> symbol_info (account_mt5 (- 100) (eurusd 1 (1 / 100))) ''EURUSD'' = Some (eurusd 1 (1 / 100))
   \<and> symbol_info_tick (account_mt5 (- 100) (eurusd 1 (1 / 100))) ''EURUSD'' \<noteq> None
   \<and> trade_tick_size (eurusd 1 (1 / 100)) \<noteq> 0
   \<and> 0 \<le> risk_per_symbol default_limits \<and> 0 \<le> max_total_risk default_limits
   \<and> check_risk_limits default_limits (account_mt5 (- 100) (eurusd 1 (1 / 100))) ''EURUSD'' 100 50
       = (True, Risk_check_passed 0 0)
   \<and> symbol_info (account_mt5 (- 100) zero_tick_size) ''EURUSD'' = Some zero_tick_size
   \<and> trade_tick_size zero_tick_size = 0
   \<and> fst (check_risk_limits default_limits (account_mt5 (- 100) zero_tick_size) ''EURUSD'' 100 50)
       = False"
  using negative_balance_is_never_rejected_on_risk_grounds
    [where terminal = "account_mt5 (- 100) (eurusd 1 (1 / 100))" and self = default_limits
       and symbol = "''EURUSD''" and proposed_size = 100 and stop_loss = 50
       and info = "eurusd 1 (1 / 100)"]
    negative_balance_is_never_rejected_on_risk_grounds
    [where terminal = "account_mt5 (- 100) zero_tick_size" and self = default_limits
       and symbol = "''EURUSD''" and proposed_size = 100 and stop_loss = 50
       and info = zero_tick_size]
  by (simp add: account_fields eurusd_fields default_limits_def zero_tick_size_def)

lemma call_counts:
  "open_calls side [] = 0"
  "open_calls side (Get_opened_positions s t # cs) = open_calls side cs"
  "open_calls side (Close_positions n s t # cs) = open_calls side cs"
  "open_calls side (Open_position s v t c m # cs) = (if t = side then 1 else 0) + open_calls side cs"
  "close_calls side [] = 0"
  "close_calls side (Get_opened_positions s t # cs) = close_calls side cs"
  "close_calls side (Open_position s v t c m # cs) = close_calls side cs"
  "close_calls side (Close_positions n s t # cs) = (if t = side then 1 else 0) + close_calls side cs"
  by (simp_all add: open_calls_def close_calls_def)

lemma close_opposite_calls:
  assumes "get_opened_positions (trader self) (fst st) symbol side = Inr n"
  shows "snd (close_opposite self symbol side st) =
           snd st @ Get_opened_positions symbol side
                    # (if n > 0 then [Close_positions name symbol side] else [])"
  using assms by (simp add: close_opposite_def Let_def)

lemma open_new_position_sent:
  assumes "fst (check_risk_before_trade self mt5 symbol (robot_calculate_position_size self mt5 symbol 1))"
    and "fst (open_position (trader self) (fst st) symbol
               (robot_calculate_position_size self mt5 symbol 1) side comment magic_number)
           = Inr (Some r)"
  shows "open_new_position self mt5 symbol side comment st =
           Continue (snd (open_position (trader self) (fst st) symbol
                            (robot_calculate_position_size self mt5 symbol 1) side comment
                            magic_number),
                     snd st @ [Open_position symbol (robot_calculate_position_size self mt5 symbol 1)
                                 side comment magic_number])"
  using assms by (simp add: open_new_position_def Let_def split_beta)

lemma robot_fields:
  "trader (demo_robot a sig) = counting_trader a"
  "strategies (demo_robot a sig) ''EURUSD'' = Some (Inr (''EURUSD'', sig))"
  by (simp_all add: demo_robot_def)

lemma trader_fields:
  "get_opened_positions (counting_trader a) b s side
     = Inr (if side = ORDER_TYPE_BUY then fst b else snd b)"
  "open_position (counting_trader False) b s lots side c m = (Inr None, b)"
  "open_position (counting_trader True) b s lots side c m =
     (Inr (Some \<lparr> retcode = 10009, order = 1, volume = lots, price = 11 / 10 \<rparr>),
      if side = ORDER_TYPE_BUY then (fst b + 1, snd b) else (fst b, snd b + 1))"
  "close_positions (counting_trader a) b n s side
     = (Inr (), if side = ORDER_TYPE_BUY then (0, snd b) else (fst b, 0))"
  by (simp_all add: counting_trader_def)

lemma demo_size:
  "robot_calculate_position_size (demo_robot a sig) (account_mt5 10000 (eurusd 1 (1 / 100)))
     ''EURUSD'' 1 = 2 / 5"
  by (simp add: robot_calculate_position_size_def demo_robot_def calculate_position_size_def
        calculate_position_size_try_def account_fields eurusd_fields eurusd_price_diff truediv_def
        default_limits_def py_round_40)

lemma demo_risk_check:
  "check_risk_before_trade (demo_robot a sig) (account_mt5 10000 (eurusd 1 (1 / 100)))
     ''EURUSD'' (2 / 5) = (True, Risk_check_passed 2 2)"
  by (simp add: check_risk_before_trade_def demo_robot_def check_risk_limits_def
        check_risk_limits_try_def account_fields eurusd_fields eurusd_price_diff truediv_def
        default_limits_def position_risk_percent_def current_total_risk_def)

lemma demo_size_large_minimum:
  "robot_calculate_position_size (demo_robot a sig) (account_mt5 10000 (eurusd 1 1))
     ''EURUSD'' 1 = 1"
  by (simp add: robot_calculate_position_size_def demo_robot_def calculate_position_size_def
        calculate_position_size_try_def account_fields eurusd_fields eurusd_price_diff truediv_def
        default_limits_def py_round_40)

lemma demo_risk_check_large_minimum:
  "check_risk_before_trade (demo_robot a sig) (account_mt5 10000 (eurusd 1 1))
     ''EURUSD'' 1 = (False, Position_risk_exceeds 5 2)"
  by (simp add: check_risk_before_trade_def demo_robot_def check_risk_limits_def
        check_risk_limits_try_def account_fields eurusd_fields eurusd_price_diff truediv_def
        default_limits_def position_risk_percent_def current_total_risk_def)

lemma demo_order_not_sent:
  "open_new_position (demo_robot False sig) (account_mt5 10000 (eurusd 1 (1 / 100))) ''EURUSD''
     side c st = Return (fst st, snd st @ [Open_position ''EURUSD'' (2 / 5) side c magic_number])"
  by (simp add: open_new_position_def demo_size demo_risk_check robot_fields trader_fields)

text \<open>
  Claim C5, as stated: on BUY with no open BUY and a passing risk check there is one open-BUY
  call and, if an open SELL exists, one close-SELL call. With automated trading disabled
  \<open>open_position\<close> returns \<open>None\<close> and \<open>trade_symbol\<close> returns at once: the order call is made,
  the existing SELL position is not closed.
\<close>

theorem order_returning_None_skips_close_counterexample:
  "strategies (demo_robot False BUY) ''EURUSD'' = Some (Inr (''EURUSD'', BUY))
   \<and> get_opened_positions (trader (demo_robot False BUY)) (0, 1) ''EURUSD'' ORDER_TYPE_BUY = Inr 0
   \<and> get_opened_positions (trader (demo_robot False BUY)) (0, 1) ''EURUSD'' ORDER_TYPE_SELL = Inr 1
   \<and> fst (check_risk_before_trade (demo_robot False BUY) (account_mt5 10000 (eurusd 1 (1 / 100)))
            ''EURUSD''
            (robot_calculate_position_size (demo_robot False BUY)
               (account_mt5 10000 (eurusd 1 (1 / 100))) ''EURUSD'' 1))
   \<and> trade_symbol (demo_robot False BUY) (account_mt5 10000 (eurusd 1 (1 / 100))) ''EURUSD'' (0, 1)
       = ((0, 1), [Get_opened_positions ''EURUSD'' ORDER_TYPE_BUY,
                   Open_position ''EURUSD'' (2 / 5) ORDER_TYPE_BUY
                     (name @ '' buy position'') magic_number])
   \<and> open_calls ORDER_TYPE_BUY
        (snd (trade_symbol (demo_robot False BUY) (account_mt5 10000 (eurusd 1 (1 / 100)))
                ''EURUSD'' (0, 1))) = 1
   \<and> close_calls ORDER_TYPE_SELL
        (snd (trade_symbol (demo_robot False BUY) (account_mt5 10000 (eurusd 1 (1 / 100)))
                ''EURUSD'' (0, 1))) = 0"
proof -
  have "trade_symbol (demo_robot False BUY) (account_mt5 10000 (eurusd 1 (1 / 100))) ''EURUSD'' (0, 1)
       = ((0, 1), [Get_opened_positions ''EURUSD'' ORDER_TYPE_BUY,
                   Open_position ''EURUSD'' (2 / 5) ORDER_TYPE_BUY
                     (name @ '' buy position'') magic_number])"
    by (simp add: trade_symbol_def robot_fields trader_fields demo_order_not_sent)
  then show ?thesis
    by (simp add: robot_fields trader_fields demo_size demo_risk_check call_counts)
qed

text \<open>
  Claim C5, amended. When the strategy returns BUY and no trader call raises: if no open BUY
  exists, the risk check passes and \<open>open_position\<close> returns a result (whatever its return
  code), there is exactly one open-BUY call, and exactly one close-SELL call if an open SELL
  exists after the order, none otherwise; if an open BUY exists there is no open call, and
  exactly one close-SELL call if an open SELL exists. No order of the opposite side is opened
  and no position of the signal's side is closed. The same holds with BUY and SELL exchanged.
\<close>

theorem signal_opens_once_and_closes_opposite:
  fixes self :: "'b MultiSymbolRobot"
  assumes side: "(sig, side, opp, comment)
                   = (BUY, ORDER_TYPE_BUY, ORDER_TYPE_SELL, name @ '' buy position'')
               \<or> (sig, side, opp, comment)
                   = (SELL, ORDER_TYPE_SELL, ORDER_TYPE_BUY, name @ '' sell position'')"
    and sig: "strategies self symbol = Some (Inr (signal_symbol, sig))"
    and own: "get_opened_positions (trader self) broker symbol side = Inr total_own"
    and sent: "total_own = 0 \<longrightarrow>
               fst (check_risk_before_trade self terminal symbol
                      (robot_calculate_position_size self terminal symbol 1))
             \<and> (\<exists>r. fst (open_position (trader self) broker symbol
                          (robot_calculate_position_size self terminal symbol 1) side comment
                          magic_number)
                       = Inr (Some r))"
    and opp: "get_opened_positions (trader self)
                (if total_own = 0
                 then snd (open_position (trader self) broker symbol
                        (robot_calculate_position_size self terminal symbol 1) side comment
                        magic_number)
                 else broker) symbol opp = Inr total_opp"
  shows "open_calls side (snd (trade_symbol self terminal symbol broker))
           = (if total_own = 0 then 1 else 0)
       \<and> open_calls opp (snd (trade_symbol self terminal symbol broker)) = 0
       \<and> close_calls opp (snd (trade_symbol self terminal symbol broker))
           = (if total_opp > 0 then 1 else 0)
       \<and> close_calls side (snd (trade_symbol self terminal symbol broker)) = 0"
proof -
  let ?size = "robot_calculate_position_size self terminal symbol 1"
  let ?st = "(broker, [Get_opened_positions symbol side])"
  have calls: "snd (trade_symbol self terminal symbol broker) =
      Get_opened_positions symbol side #
      (if total_own = 0 then [Open_position symbol ?size side comment magic_number] else []) @
      Get_opened_positions symbol opp #
      (if total_opp > 0 then [Close_positions name symbol opp] else [])"
  proof (cases "total_own = 0")
    case True
    with sent obtain r where
      risk: "fst (check_risk_before_trade self terminal symbol ?size)" and
      res: "fst (open_position (trader self) (fst ?st) symbol ?size side comment magic_number)
              = Inr (Some r)"
      by auto
    note on = open_new_position_sent[OF risk res]
    from opp True have
      "get_opened_positions (trader self)
         (fst (snd (open_position (trader self) (fst ?st) symbol ?size side comment magic_number),
               snd ?st @ [Open_position symbol ?size side comment magic_number])) symbol opp
         = Inr total_opp"
      by simp
    note co = close_opposite_calls[OF this]
    from side show ?thesis
      using sig own True on co by (auto simp: trade_symbol_def)
  next
    case False
    from opp False have "get_opened_positions (trader self) (fst ?st) symbol opp = Inr total_opp"
      by simp
    note co = close_opposite_calls[OF this]
    from side show ?thesis
      using sig own False co by (auto simp: trade_symbol_def)
  qed
  from side have "side \<noteq> opp" by auto
  then show ?thesis
    unfolding calls by (auto simp: call_counts)
qed

text \<open>
  A BUY signal against a broker holding one SELL position: one order, one close. A SELL signal
  against a broker holding two BUY positions and one SELL position: no order, one close.
\<close>

theorem signal_opens_once_and_closes_opposite_witness:
  "strategies (demo_robot True BUY) ''EURUSD'' = Some (Inr (''EURUSD'', BUY))
   \<and> get_opened_positions (trader (demo_robot True BUY)) (0, 1) ''EURUSD'' ORDER_TYPE_BUY = Inr 0
   \<and> open_calls ORDER_TYPE_BUY
        (snd (trade_symbol (demo_robot True BUY) (account_mt5 10000 (eurusd 1 (1 / 100)))
                ''EURUSD'' (0, 1))) = 1
   \<and> close_calls ORDER_TYPE_SELL
        (snd (trade_symbol (demo_robot True BUY) (account_mt5 10000 (eurusd 1 (1 / 100)))
                ''EURUSD'' (0, 1))) = 1
   \<and> strategies (demo_robot True SELL) ''EURUSD'' = Some (Inr (''EURUSD'', SELL))
   \<and> get_opened_positions (trader (demo_robot True SELL)) (2, 1) ''EURUSD'' ORDER_TYPE_SELL = Inr 1
   \<and> open_calls ORDER_TYPE_SELL
        (snd (trade_symbol (demo_robot True SELL) (account_mt5 10000 (eurusd 1 (1 / 100)))
                ''EURUSD'' (2, 1))) = 0
   \<and> close_calls ORDER_TYPE_BUY
        (snd (trade_symbol (demo_robot True SELL) (account_mt5 10000 (eurusd 1 (1 / 100)))
                ''EURUSD'' (2, 1))) = 1"
  using signal_opens_once_and_closes_opposite
    [where self = "demo_robot True BUY" and terminal = "account_mt5 10000 (eurusd 1 (1 / 100))"
       and symbol = "''EURUSD''" and broker = "(0, 1)" and sig = BUY and side = ORDER_TYPE_BUY
       and opp = ORDER_TYPE_SELL and comment = "name @ '' buy position''"
       and signal_symbol = "''EURUSD''" and total_own = 0 and total_opp = 1]
    signal_opens_once_and_closes_opposite
    [where self = "demo_robot True SELL" and terminal = "account_mt5 10000 (eurusd 1 (1 / 100))"
       and symbol = "''EURUSD''" and broker = "(2, 1)" and sig = SELL and side = ORDER_TYPE_SELL
       and opp = ORDER_TYPE_BUY and comment = "name @ '' sell position''"
       and signal_symbol = "''EURUSD''" and total_own = 1 and total_opp = 2]
  by (simp add: robot_fields trader_fields demo_size demo_risk_check)

text \<open>
  Claim C10. On BUY with no open BUY, when the risk check rejects the computed size,
  \<open>trade_symbol\<close> returns after the one query for open BUY positions: no order is sent, no
  position is closed, and the broker state, with any open SELL positions, is unchanged.
\<close>

theorem risk_rejection_returns_without_closing:
  assumes "strategies self symbol = Some (Inr (signal_symbol, BUY))"
    and "get_opened_positions (trader self) broker symbol ORDER_TYPE_BUY = Inr 0"
    and "\<not> fst (check_risk_before_trade self terminal symbol
                  (robot_calculate_position_size self terminal symbol 1))"
  shows "trade_symbol self terminal symbol broker
           = (broker, [Get_opened_positions symbol ORDER_TYPE_BUY])
       \<and> open_calls ORDER_TYPE_BUY (snd (trade_symbol self terminal symbol broker)) = 0
       \<and> close_calls ORDER_TYPE_SELL (snd (trade_symbol self terminal symbol broker)) = 0"
proof -
  have "trade_symbol self terminal symbol broker
           = (broker, [Get_opened_positions symbol ORDER_TYPE_BUY])"
    using assms by (simp add: trade_symbol_def open_new_position_def Let_def split_beta)
  then show ?thesis
    by (simp add: call_counts)
qed

text \<open>
  With a minimum lot of 1 the size is clamped up to 1 lot, whose risk of 5% exceeds the 2%
  limit: the BUY is rejected and the open SELL position stays.
\<close>

theorem risk_rejection_returns_without_closing_witness:
  "strategies (demo_robot True BUY) ''EURUSD'' = Some (Inr (''EURUSD'', BUY))
   \<and> get_opened_positions (trader (demo_robot True BUY)) (0, 1) ''EURUSD'' ORDER_TYPE_BUY = Inr 0
   \<and> get_opened_positions (trader (demo_robot True BUY)) (0, 1) ''EURUSD'' ORDER_TYPE_SELL = Inr 1
   \<and> check_risk_before_trade (demo_robot True BUY) (account_mt5 10000 (eurusd 1 1)) ''EURUSD''
        (robot_calculate_position_size (demo_robot True BUY) (account_mt5 10000 (eurusd 1 1))
           ''EURUSD'' 1) = (False, Position_risk_exceeds 5 2)
   \<and> trade_symbol (demo_robot True BUY) (account_mt5 10000 (eurusd 1 1)) ''EURUSD'' (0, 1)
       = ((0, 1), [Get_opened_positions ''EURUSD'' ORDER_TYPE_BUY])"
  using risk_rejection_returns_without_closing
    [where self = "demo_robot True BUY" and terminal = "account_mt5 10000 (eurusd 1 1)"
       and symbol = "''EURUSD''" and broker = "(0, 1)" and signal_symbol = "''EURUSD''"]
  by (simp add: robot_fields trader_fields demo_size_large_minimum demo_risk_check_large_minimum)

end
